theory Spec2Isabelle
  imports Complex_Main "HOL-Library.Sublist"
begin

section \<open>Python values used by the outreach pipeline\<close>

text \<open>
  Text is modelled by Isabelle strings; a character stands for a code point below 256,
  so the model covers the texts over these code points. On that range \<open>str.lower\<close>
  moves the letters A-Z and the accented capitals U+00C0-U+00DE (without the
  multiplication sign U+00D7) up by 32, and \<open>str.strip\<close> removes the twelve code points
  that \<open>str.isspace\<close> accepts.
\<close>

definition lower_char :: "char \<Rightarrow> char" where
  "lower_char c =
     (let n = (of_char c :: nat)
      in if (65 \<le> n \<and> n \<le> 90) \<or> (192 \<le> n \<and> n \<le> 222 \<and> n \<noteq> 215)
         then char_of (n + 32) else c)"

definition lower :: "string \<Rightarrow> string" where
  "lower s = map lower_char s"

definition isspace :: "char \<Rightarrow> bool" where
  "isspace c = (of_char c \<in> {9, 10, 11, 12, 13, 28, 29, 30, 31, 32, 133, 160 :: nat})"

definition strip :: "string \<Rightarrow> string" where
  "strip s = rev (dropWhile isspace (rev (dropWhile isspace s)))"

text \<open>\<open>sub in s\<close> on two strings: \<open>sub\<close> occurs in \<open>s\<close> as a contiguous block.\<close>

definition py_in :: "string \<Rightarrow> string \<Rightarrow> bool" where
  "py_in sub s = sublist sub s"

text \<open>
  \<open>s.split(sep)\<close> cuts \<open>s\<close> at every occurrence of \<open>sep\<close>, scanning from the left.
  \<open>partition_first\<close> finds the leftmost occurrence and gives the text before and after it.
  The program only splits at two non-empty literals; Python rejects an empty separator.
\<close>

fun partition_first :: "string \<Rightarrow> string \<Rightarrow> (string \<times> string) option" where
  "partition_first sep [] = (if sep = [] then Some ([], []) else None)"
| "partition_first sep (c # cs) =
     (if prefix sep (c # cs) then Some ([], drop (length sep) (c # cs))
      else map_option (\<lambda>(a, b). (c # a, b)) (partition_first sep cs))"

lemma partition_first_length:
  "partition_first sep s = Some (a, b) \<Longrightarrow> length s = length a + length sep + length b"
proof (induction s arbitrary: a b)
  case Nil
  then show ?case by (auto split: if_splits)
next
  case (Cons c cs)
  show ?case
  proof (cases "prefix sep (c # cs)")
    case True
    with Cons.prems have "a = []" "b = drop (length sep) (c # cs)" by auto
    moreover from True have "length sep \<le> length (c # cs)" by (rule prefix_length_le)
    ultimately show ?thesis by simp
  next
    case False
    with Cons.prems obtain a' where "partition_first sep cs = Some (a', b)" "a = c # a'"
      by (auto split: if_splits)
    with Cons.IH show ?thesis by simp
  qed
qed

text \<open>
  The exceptions of \<open>requests\<close>: \<open>HTTPError\<close> from \<open>raise_for_status\<close> (with the
  status code) and every other \<open>RequestException\<close> (connection failure, timeout).
  Both carry their message.
\<close>

datatype request_exception = HTTPError nat string | OtherRequestException string

datatype exn =
    AttributeError | TypeError | IndexError | ValueError
  | RequestException request_exception

function split :: "string \<Rightarrow> string \<Rightarrow> exn + string list" where
  "split sep s =
     (if sep = [] then Inl ValueError
      else case partition_first sep s of
             None \<Rightarrow> Inr [s]
           | Some (a, b) \<Rightarrow> (case split sep b of Inl e \<Rightarrow> Inl e | Inr rest \<Rightarrow> Inr (a # rest)))"
  by pat_completeness auto
termination
proof (relation "measure (\<lambda>(sep, s). length s)")
  show "wf (measure (\<lambda>(sep, s). length s))" by simp
next
  fix sep s :: string and ab a b
  assume "sep \<noteq> []" "partition_first sep s = Some ab" "(a, b) = ab"
  then have "length s = length a + length sep + length b"
    using partition_first_length by metis
  with \<open>sep \<noteq> []\<close> show "((sep, b), (sep, s)) \<in> measure (\<lambda>(sep, s). length s)"
    by (cases sep) auto
qed

text \<open>\<open>xs[i]\<close> for a non-negative literal index: IndexError past the end.\<close>

definition item :: "'a list \<Rightarrow> nat \<Rightarrow> exn + 'a" where
  "item xs i = (if i < length xs then Inr (xs ! i) else Inl IndexError)"

definition and_then :: "exn + 'a \<Rightarrow> ('a \<Rightarrow> exn + 'b) \<Rightarrow> exn + 'b" where
  "and_then r f = (case r of Inl e \<Rightarrow> Inl e | Inr x \<Rightarrow> f x)"

text \<open>
  What \<open>json.loads\<close> returns: None, a bool, an int, a float, a str, a list or a dict with
  string keys. A dict is an association list in insertion order, each key once. A float is
  given by its value; the program only ever tests one for being zero.
\<close>

datatype json =
    JNull
  | JBool bool
  | JInt int
  | JFloat rat
  | JStr string
  | JList "json list"
  | JObj "(string \<times> json) list"

text \<open>Python's truth test, as \<open>if x\<close> and \<open>x and y\<close> apply it.\<close>

fun truthy :: "json \<Rightarrow> bool" where
  "truthy JNull = False"
| "truthy (JBool b) = b"
| "truthy (JInt n) = (n \<noteq> 0)"
| "truthy (JFloat f) = (f \<noteq> 0)"
| "truthy (JStr s) = (s \<noteq> [])"
| "truthy (JList xs) = (xs \<noteq> [])"
| "truthy (JObj kvs) = (kvs \<noteq> [])"

text \<open>\<open>d.get(k, default)\<close>: only a dict has the method.\<close>

fun py_get :: "json \<Rightarrow> string \<Rightarrow> json \<Rightarrow> exn + json" where
  "py_get (JObj kvs) k d = Inr (case map_of kvs k of None \<Rightarrow> d | Some v \<Rightarrow> v)"
| "py_get _ k d = Inl AttributeError"

text \<open>
  \<open>sep.join(x)\<close>: \<open>x\<close> must be iterable and yield strings. A str yields its characters,
  a dict its keys, a list its items.
\<close>

fun as_str :: "json \<Rightarrow> exn + string" where
  "as_str (JStr s) = Inr s"
| "as_str _ = Inl TypeError"

fun all_str :: "json list \<Rightarrow> exn + string list" where
  "all_str [] = Inr []"
| "all_str (x # xs) =
     and_then (as_str x) (\<lambda>s. and_then (all_str xs) (\<lambda>ss. Inr (s # ss)))"

fun intercalate :: "string \<Rightarrow> string list \<Rightarrow> string" where
  "intercalate sep [] = []"
| "intercalate sep [s] = s"
| "intercalate sep (s # t # ss) = s @ sep @ intercalate sep (t # ss)"

fun join :: "string \<Rightarrow> json \<Rightarrow> exn + string" where
  "join sep (JStr s) = Inr (intercalate sep (map (\<lambda>c. [c]) s))"
| "join sep (JList xs) = and_then (all_str xs) (\<lambda>ss. Inr (intercalate sep ss))"
| "join sep (JObj kvs) = Inr (intercalate sep (map fst kvs))"
| "join sep _ = Inl TypeError"

section \<open>HTTP calls\<close>

text \<open>
  A call through \<open>requests\<close> either gives the decoded body of a successful response or
  raises a \<open>RequestException\<close>. The body of a successful response is taken to have the
  shape that the service documents; each function below says what it reads from it.
  Output to the console is not modelled, except where producing it can raise.
\<close>

fun message_of :: "request_exception \<Rightarrow> string" where
  "message_of (HTTPError code msg) = msg"
| "message_of (OtherRequestException msg) = msg"

datatype 'a reply = Response 'a | Raised request_exception

section \<open>analyze\_and\_support.py: GrokClient\<close>

text \<open>
  \<open>analyze_sentiment\<close>. The prompt is built from the text and the user name of the post
  and sent to the service; the reply carries the content string of the first choice of
  the chat completion. The fenced block is cut out by two splits; \<open>json.loads\<close> is
  library code and is a parameter \<open>loads\<close> of the model, \<open>None\<close> standing for
  \<open>JSONDecodeError\<close>. The inner handler catches that error only, the outer one
  \<open>RequestException\<close> only, so any other exception would reach the caller. The other
  exceptions of \<open>json.loads\<close> (\<open>ValueError\<close> at its limit on the digits of an integer,
  \<open>RecursionError\<close> on deep nesting) are outside the model: the statements below are
  about texts that \<open>json.loads\<close> decodes or rejects with \<open>JSONDecodeError\<close>.
\<close>

definition fence_json :: string where
  "fence_json = ''```json''"

definition fence :: string where
  "fence = ''```''"

definition between_fences :: "string \<Rightarrow> string \<Rightarrow> exn + string" where
  "between_fences marker content =
     and_then (split marker content) (\<lambda>parts.
     and_then (item parts 1) (\<lambda>tail.
     and_then (split fence tail) (\<lambda>pieces.
     and_then (item pieces 0) (\<lambda>body. Inr (strip body)))))"

definition salvage :: "string \<Rightarrow> exn + string" where
  "salvage content =
     (if py_in fence_json content then between_fences fence_json content
      else if py_in fence content then between_fences fence content
      else Inr content)"

definition fallback_verdict :: "string \<Rightarrow> json" where
  "fallback_verdict content = JObj
     [(''is_negative'',
         JBool (py_in ''negative'' (lower content) \<or> py_in ''true'' (lower content))),
      (''sentiment'',
         JStr (if py_in ''negative'' (lower content) then ''negative'' else ''neutral'')),
      (''severity'', JStr ''medium''),
      (''concerns'', JList []),
      (''needs_support'', JBool True),
      (''reasoning'', JStr (take 200 content))]"

definition error_verdict :: "request_exception \<Rightarrow> json" where
  "error_verdict e = JObj
     [(''is_negative'', JBool False),
      (''sentiment'', JStr ''unknown''),
      (''severity'', JStr ''low''),
      (''concerns'', JList []),
      (''needs_support'', JBool False),
      (''reasoning'', JStr (''API error: '' @ message_of e))]"

definition analyze_sentiment :: "(string \<Rightarrow> json option) \<Rightarrow> string reply \<Rightarrow> exn + json" where
  "analyze_sentiment loads r =
     (case r of
        Raised e \<Rightarrow> Inr (error_verdict e)
      | Response content \<Rightarrow>
          and_then (salvage content) (\<lambda>text.
            case loads text of
              Some analysis \<Rightarrow> Inr analysis
            | None \<Rightarrow> Inr (fallback_verdict text)))"

text \<open>
  \<open>generate_support_message\<close>. The concerns are joined before the request is made. The
  reply is stripped, its double quotes are removed, it is stripped again and a leading
  \<open>@\<close> is dropped. The two stock messages end in a blue-heart emoji, outside the
  modelled code points, so a message is a value of its own type: \<open>StockMessage\<close> is the
  text returned for an empty reply, \<open>StockMessageFor username\<close> the one returned after a
  request failure.
\<close>

datatype message = Drafted string | StockMessage | StockMessageFor string

definition clean_message :: "string \<Rightarrow> message" where
  "clean_message content =
     (let m = strip (filter (\<lambda>c. c \<noteq> CHR 0x22) (strip content));
          m' = (if prefix ''@'' m then drop 1 m else m)
      in if m' \<noteq> [] then Drafted m' else StockMessage)"

definition concerns_str :: "json \<Rightarrow> exn + string" where
  "concerns_str concerns =
     (if truthy concerns then join '', '' concerns else Inr ''general distress'')"

definition generate_support_message ::
  "(string \<Rightarrow> string reply) \<Rightarrow> string \<Rightarrow> json \<Rightarrow> exn + message" where
  "generate_support_message api username concerns =
     and_then (concerns_str concerns) (\<lambda>cs.
       case api cs of
         Response content \<Rightarrow> Inr (clean_message content)
       | Raised e \<Rightarrow> Inr (StockMessageFor username))"

section \<open>analyze\_and\_support.py: TwitterClient\<close>

record search_params =
  p_query :: string
  p_max_results :: int
  p_tweet_fields :: string
  p_user_fields :: string
  p_expansions :: string

definition default_query :: string where
  "default_query = ''lang:en -is:retweet''"

definition search_request :: "string \<Rightarrow> int \<Rightarrow> search_params" where
  "search_request query max_results =
     \<lparr> p_query = (if query = [] \<or> strip query = [] then default_query else query),
       p_max_results = max 10 (min max_results 100),
       p_tweet_fields = ''created_at,author_id,public_metrics,text'',
       p_user_fields = ''username,name,description,public_metrics'',
       p_expansions = ''author_id'' \<rparr>"

text \<open>
  The body of a search response, with the fields the program reads: the optional
  \<open>errors\<close> (each with an optional message), \<open>includes.users\<close> and \<open>data\<close>. A field of
  a tweet or of a user that may be absent is an option.
\<close>

record tweet =
  t_id :: "string option"
  t_text :: "string option"
  t_author_id :: "string option"
  t_created_at :: "string option"
  t_public_metrics :: "(string \<times> int) list option"

record user =
  u_id :: string
  u_username :: "string option"
  u_name :: "string option"

record search_body =
  b_errors :: "string option list option"
  b_users :: "user list option"
  b_data :: "tweet list option"

record post =
  post_id :: "string option"
  post_text :: string
  post_author_id :: "string option"
  post_username :: string
  post_name :: string
  post_created_at :: "string option"
  post_metrics :: "(string \<times> int) list"

text \<open>The dict comprehension over the users keeps the last user of each id.\<close>

definition users_by_id :: "user list \<Rightarrow> string \<Rightarrow> user option" where
  "users_by_id us = map_of (rev (map (\<lambda>u. (u_id u, u)) us))"

definition make_post :: "(string \<Rightarrow> user option) \<Rightarrow> tweet \<Rightarrow> post" where
  "make_post users tw =
     (let usr = (case t_author_id tw of None \<Rightarrow> None | Some a \<Rightarrow> users a)
      in \<lparr> post_id = t_id tw,
           post_text = (case t_text tw of None \<Rightarrow> [] | Some t \<Rightarrow> t),
           post_author_id = t_author_id tw,
           post_username =
             (case usr of None \<Rightarrow> ''unknown''
              | Some u \<Rightarrow> (case u_username u of None \<Rightarrow> ''unknown'' | Some n \<Rightarrow> n)),
           post_name =
             (case usr of None \<Rightarrow> ''Unknown''
              | Some u \<Rightarrow> (case u_name u of None \<Rightarrow> ''Unknown'' | Some n \<Rightarrow> n)),
           post_created_at = t_created_at tw,
           post_metrics = (case t_public_metrics tw of None \<Rightarrow> [] | Some m \<Rightarrow> m) \<rparr>)"

definition search_posts ::
  "(search_params \<Rightarrow> search_body reply) \<Rightarrow> string \<Rightarrow> int \<Rightarrow> post list" where
  "search_posts api query max_results =
     (case api (search_request query max_results) of
        Raised e \<Rightarrow> []
      | Response body \<Rightarrow>
          (case b_errors body of
             Some errs \<Rightarrow> []
           | None \<Rightarrow>
               (let users = (case b_users body of None \<Rightarrow> Map.empty | Some us \<Rightarrow> users_by_id us)
                in case b_data body of
                     None \<Rightarrow> []
                   | Some tweets \<Rightarrow> map (make_post users) tweets)))"

text \<open>
  The user lookup. The response body has an optional \<open>data\<close>, a dict of the requested
  profile fields, all strings; \<open>get_user_info\<close> gives \<open>None\<close> after a request failure and
  the empty dict when \<open>data\<close> is absent. \<open>find_contact_info\<close> gives the empty dict, here
  \<open>None\<close>, when the lookup gave nothing.
\<close>

type_synonym user_info = "(string \<times> string) list"

definition get_user_info :: "user_info option reply \<Rightarrow> user_info option" where
  "get_user_info r =
     (case r of
        Raised e \<Rightarrow> None
      | Response body \<Rightarrow> Some (case body of None \<Rightarrow> [] | Some d \<Rightarrow> d))"

record contact =
  c_username :: "string option"
  c_name :: "string option"
  c_description :: string
  c_location :: "string option"
  c_url :: "string option"
  c_profile_url :: "string option"

definition find_contact_info :: "user_info option reply \<Rightarrow> contact option" where
  "find_contact_info r =
     (case get_user_info r of
        None \<Rightarrow> None
      | Some info \<Rightarrow>
          if info = [] then None
          else Some
            \<lparr> c_username = map_of info ''username'',
              c_name = map_of info ''name'',
              c_description = (case map_of info ''description'' of None \<Rightarrow> [] | Some d \<Rightarrow> d),
              c_location = map_of info ''location'',
              c_url = map_of info ''url'',
              c_profile_url =
                (case map_of info ''username'' of
                   None \<Rightarrow> None
                 | Some n \<Rightarrow> if n = [] then None else Some (''https://twitter.com/'' @ n)) \<rparr>)"

section \<open>analyze\_and\_support.py: scan\_and\_analyze\<close>

text \<open>
  Everything outside the program is a field of \<open>world\<close>: the search service, the reply to
  the classification of the i-th post (given its text and user name), the reply to the
  profile lookup and to the drafting for the j-th accepted post, and the clock readings
  that go into the file name, the records and the report.
\<close>

record world =
  search_api :: "search_params \<Rightarrow> search_body reply"
  sentiment_api :: "nat \<Rightarrow> string \<Rightarrow> string \<Rightarrow> string reply"
  user_api :: "nat \<Rightarrow> string option \<Rightarrow> user_info option reply"
  draft_api :: "nat \<Rightarrow> string \<Rightarrow> string \<Rightarrow> string \<Rightarrow> string reply"
  file_stamp :: string
  entry_stamp :: "nat \<Rightarrow> string"
  scan_stamp :: string

text \<open>The test \<open>analysis.get("is_negative") and analysis.get("needs_support")\<close>.\<close>

definition accepts :: "json \<Rightarrow> exn + bool" where
  "accepts analysis =
     and_then (py_get analysis ''is_negative'' JNull) (\<lambda>neg.
       if truthy neg
       then and_then (py_get analysis ''needs_support'' JNull) (\<lambda>sup. Inr (truthy sup))
       else Inr False)"

text \<open>The two lines printed for an accepted post: the severity and the joined concerns.\<close>

definition announce :: "json \<Rightarrow> exn + string" where
  "announce analysis =
     and_then (py_get analysis ''severity'' (JStr ''unknown'')) (\<lambda>sev.
     and_then (py_get analysis ''concerns'' (JList [])) (\<lambda>concerns.
       join '', '' concerns))"

fun filter_stage ::
  "(string \<Rightarrow> json option) \<Rightarrow> world \<Rightarrow> nat \<Rightarrow> post list \<Rightarrow> exn + (post \<times> json) list" where
  "filter_stage loads w i [] = Inr []"
| "filter_stage loads w i (p # ps) =
     and_then (analyze_sentiment loads (sentiment_api w i (post_text p) (post_username p)))
       (\<lambda>analysis.
     and_then (accepts analysis) (\<lambda>ok.
     and_then (if ok then announce analysis else Inr []) (\<lambda>line.
     and_then (filter_stage loads w (Suc i) ps) (\<lambda>rest.
       Inr (if ok then (p, analysis) # rest else rest)))))"

record outreach_record =
  r_username :: "string option"
  r_user_id :: "string option"
  r_profile_url :: "string option"
  r_original_post :: string
  r_post_url :: "string option"
  r_sentiment_analysis :: json
  r_support_message :: message
  r_contact_info :: "contact option"
  r_timestamp :: string

definition contact_username :: "contact option \<Rightarrow> string option" where
  "contact_username c = (case c of None \<Rightarrow> None | Some k \<Rightarrow> c_username k)"

definition contact_profile_url :: "contact option \<Rightarrow> string option" where
  "contact_profile_url c = (case c of None \<Rightarrow> None | Some k \<Rightarrow> c_profile_url k)"

definition post_url_of :: "contact option \<Rightarrow> post \<Rightarrow> string option" where
  "post_url_of c p =
     (case post_id p of
        None \<Rightarrow> None
      | Some i \<Rightarrow>
          if i = [] then None
          else Some (''https://twitter.com/''
                 @ (case contact_username c of None \<Rightarrow> ''None'' | Some n \<Rightarrow> n)
                 @ ''/status/'' @ i))"

fun draft_stage :: "world \<Rightarrow> nat \<Rightarrow> (post \<times> json) list \<Rightarrow> exn + outreach_record list" where
  "draft_stage w j [] = Inr []"
| "draft_stage w j ((p, analysis) # items) =
     (let contact_info = find_contact_info (user_api w j (post_author_id p))
      in and_then (py_get analysis ''concerns'' (JList [])) (\<lambda>concerns.
         and_then (generate_support_message (draft_api w j (post_text p) (post_username p))
                     (post_username p) concerns) (\<lambda>support_message.
         and_then (draft_stage w (Suc j) items) (\<lambda>rest.
           Inr (\<lparr> r_username = contact_username contact_info,
                  r_user_id = post_author_id p,
                  r_profile_url = contact_profile_url contact_info,
                  r_original_post = post_text p,
                  r_post_url = post_url_of contact_info p,
                  r_sentiment_analysis = analysis,
                  r_support_message = support_message,
                  r_contact_info = contact_info,
                  r_timestamp = entry_stamp w j \<rparr> # rest)))))"

record report =
  scan_timestamp :: string
  rep_query :: string
  total_posts_scanned :: nat
  negative_posts_found :: nat
  rep_results :: "outreach_record list"

definition results_file :: "world \<Rightarrow> string" where
  "results_file w = ''support_outreach_'' @ file_stamp w @ ''.json''"

text \<open>
  A run gives the returned records and the files it wrote (name and content), or the
  exception that ended it. \<open>dry_run\<close> only changes what is printed. The file system is
  taken to accept the write.
\<close>

definition scan_and_analyze ::
  "(string \<Rightarrow> json option) \<Rightarrow> world \<Rightarrow> string \<Rightarrow> int \<Rightarrow> bool
     \<Rightarrow> exn + (outreach_record list \<times> (string \<times> report) list)" where
  "scan_and_analyze loads w query max_posts dry_run =
     (let posts = search_posts (search_api w) query max_posts
      in if posts = [] then Inr ([], [])
         else
           and_then (filter_stage loads w 0 posts) (\<lambda>negative_posts.
           and_then (draft_stage w 0 negative_posts) (\<lambda>results_data.
             Inr (results_data,
                  if results_data \<noteq> []
                  then [(results_file w,
                         \<lparr> scan_timestamp = scan_stamp w,
                           rep_query = query,
                           total_posts_scanned = length posts,
                           negative_posts_found = length negative_posts,
                           rep_results = results_data \<rparr>)]
                  else []))))"

section \<open>fetch\_x\_trends.py\<close>

record trend_params =
  tp_max_trends :: int
  tp_trend_fields :: "string option"

definition trend_request :: "int \<Rightarrow> string list option \<Rightarrow> trend_params" where
  "trend_request max_trends trend_fields =
     \<lparr> tp_max_trends = max_trends,
       tp_trend_fields =
         (case trend_fields of
            None \<Rightarrow> None
          | Some fs \<Rightarrow> if fs = [] then None else Some (intercalate '','' fs)) \<rparr>"

text \<open>Both handlers of \<open>fetch_trends_by_woeid\<close> print and end in a bare \<open>raise\<close>.\<close>

definition fetch_trends_by_woeid ::
  "(int \<Rightarrow> trend_params \<Rightarrow> 'a reply) \<Rightarrow> int \<Rightarrow> int \<Rightarrow> string list option \<Rightarrow> exn + 'a" where
  "fetch_trends_by_woeid api woeid max_trends trend_fields =
     (case api woeid (trend_request max_trends trend_fields) of
        Response body \<Rightarrow> Inr body
      | Raised e \<Rightarrow> Inl (RequestException e))"

section \<open>voice\_support\_backend: memory manager, RAG manager, health check\<close>

text \<open>
  A stored memory entry as \<open>_save_file_memory\<close> writes it; \<open>text\<close> is read with a default,
  so it is an option here. A user's memory file is missing, unreadable or holds the
  memory data. The Mem0 object is given by its \<open>search\<close>, \<open>None\<close> for a raised exception.
\<close>

record mem_entry =
  m_text :: "string option"
  m_timestamp :: string
  m_metadata :: "(string \<times> string) list"

record memory_data =
  md_memories :: "mem_entry list option"
  md_count :: nat

datatype mem_file = Missing | Unreadable | Stored memory_data

datatype mem0 = Mem0 (mem0_search: "string \<Rightarrow> string \<Rightarrow> int \<Rightarrow> mem_entry list option")

record memory_manager =
  mem0_available :: bool
  memory :: "mem0 option"
  ready :: bool
  storage :: "string \<Rightarrow> mem_file"

text \<open>
  The constructor: the library is absent, or its initialisation fails, or it gives the
  Mem0 object.
\<close>

datatype 'a library = Absent | InitFails | Works 'a

definition memory_manager_init :: "mem0 library \<Rightarrow> (string \<Rightarrow> mem_file) \<Rightarrow> memory_manager" where
  "memory_manager_init lib files =
     (case lib of
        Works m \<Rightarrow> \<lparr> mem0_available = True, memory = Some m, ready = True, storage = files \<rparr>
      | InitFails \<Rightarrow> \<lparr> mem0_available = True, memory = None, ready = False, storage = files \<rparr>
      | Absent \<Rightarrow> \<lparr> mem0_available = False, memory = None, ready = False, storage = files \<rparr>)"

definition is_ready :: "memory_manager \<Rightarrow> bool" where
  "is_ready mm = (ready mm \<or> True)"

definition empty_memory :: memory_data where
  "empty_memory = \<lparr> md_memories = Some [], md_count = 0 \<rparr>"

definition get_file_memory :: "memory_manager \<Rightarrow> string \<Rightarrow> memory_data" where
  "get_file_memory mm user_id =
     (case storage mm user_id of
        Missing \<Rightarrow> empty_memory
      | Unreadable \<Rightarrow> empty_memory
      | Stored d \<Rightarrow> d)"

text \<open>\<open>xs[:limit]\<close>: a negative limit counts from the end.\<close>

definition slice_to :: "int \<Rightarrow> 'a list \<Rightarrow> 'a list" where
  "slice_to limit xs =
     (if 0 \<le> limit then take (nat limit) xs
      else take (nat (int (length xs) + limit)) xs)"

definition entry_text :: "mem_entry \<Rightarrow> string" where
  "entry_text m = (case m_text m of None \<Rightarrow> [] | Some t \<Rightarrow> t)"

definition search_file_memories ::
  "memory_manager \<Rightarrow> string \<Rightarrow> string \<Rightarrow> int \<Rightarrow> mem_entry list" where
  "search_file_memories mm user_id query limit =
     (let memory_data = get_file_memory mm user_id;
          memories = (case md_memories memory_data of None \<Rightarrow> [] | Some ms \<Rightarrow> ms);
          query_lower = lower query;
          results = filter (\<lambda>mem. py_in query_lower (lower (entry_text mem))) memories
      in slice_to limit results)"

definition search_memories ::
  "memory_manager \<Rightarrow> string \<Rightarrow> string \<Rightarrow> int \<Rightarrow> mem_entry list" where
  "search_memories mm user_id query limit =
     (case (if mem0_available mm then memory mm else None) of
        Some m \<Rightarrow>
          (case mem0_search m user_id query limit of
             Some results \<Rightarrow> (if results \<noteq> [] then results else [])
           | None \<Rightarrow> search_file_memories mm user_id query limit)
      | None \<Rightarrow> search_file_memories mm user_id query limit)"

record rag_manager =
  lancedb_available :: bool
  table_open :: bool
  embeddings_loaded :: bool
  rag_ready :: bool

definition rag_manager_init :: "unit library \<Rightarrow> bool \<Rightarrow> bool \<Rightarrow> rag_manager" where
  "rag_manager_init lib has_table has_embeddings =
     (case lib of
        Works u \<Rightarrow> \<lparr> lancedb_available = True, table_open = has_table,
                     embeddings_loaded = has_embeddings, rag_ready = True \<rparr>
      | InitFails \<Rightarrow> \<lparr> lancedb_available = True, table_open = False,
                       embeddings_loaded = False, rag_ready = False \<rparr>
      | Absent \<Rightarrow> \<lparr> lancedb_available = False, table_open = False,
                    embeddings_loaded = False, rag_ready = False \<rparr>)"

definition rag_is_ready :: "rag_manager \<Rightarrow> bool" where
  "rag_is_ready rm = (rag_ready rm \<or> True)"

record health =
  h_status :: string
  h_timestamp :: string
  h_memory :: bool
  h_rag :: bool

definition health_check :: "string \<Rightarrow> memory_manager \<Rightarrow> rag_manager \<Rightarrow> health" where
  "health_check now mm rm =
     \<lparr> h_status = ''healthy'', h_timestamp = now,
       h_memory = is_ready mm, h_rag = rag_is_ready rm \<rparr>"

section \<open>Notions used in the statements\<close>

text \<open>
  A verdict has a flag when it is a dict that holds a true value (in Python's sense)
  under that key. \<open>joinable\<close> describes the values that \<open>str.join\<close> accepts,
  \<open>concerns_of\<close> is the value read by \<open>analysis.get('concerns', [])\<close>, and a verdict is
  well shaped when it is a dict whose concerns, in case both flags hold, can be joined.
\<close>

definition flag :: "json \<Rightarrow> string \<Rightarrow> bool" where
  "flag v k =
     (case v of
        JObj kvs \<Rightarrow> (case map_of kvs k of None \<Rightarrow> False | Some x \<Rightarrow> truthy x)
      | _ \<Rightarrow> False)"

definition both_flags :: "json \<Rightarrow> bool" where
  "both_flags v = (flag v ''is_negative'' \<and> flag v ''needs_support'')"

fun is_str :: "json \<Rightarrow> bool" where
  "is_str (JStr s) = True"
| "is_str _ = False"

fun is_dict :: "json \<Rightarrow> bool" where
  "is_dict (JObj kvs) = True"
| "is_dict _ = False"

fun joinable :: "json \<Rightarrow> bool" where
  "joinable (JStr s) = True"
| "joinable (JList xs) = list_all is_str xs"
| "joinable (JObj kvs) = True"
| "joinable _ = False"

definition concerns_of :: "json \<Rightarrow> json" where
  "concerns_of v =
     (case v of
        JObj kvs \<Rightarrow> (case map_of kvs ''concerns'' of None \<Rightarrow> JList [] | Some c \<Rightarrow> c)
      | _ \<Rightarrow> JList [])"

definition well_shaped :: "json \<Rightarrow> bool" where
  "well_shaped v = (is_dict v \<and> (both_flags v \<longrightarrow> joinable (concerns_of v)))"

text \<open>
  The verdict that \<open>analyze_sentiment\<close> returns for a reply, and the verdicts of a list of
  posts, the i-th post being classified by the i-th call.
\<close>

definition verdict :: "(string \<Rightarrow> json option) \<Rightarrow> string reply \<Rightarrow> json" where
  "verdict loads r = (case analyze_sentiment loads r of Inr v \<Rightarrow> v | Inl e \<Rightarrow> JNull)"

fun verdicts :: "(string \<Rightarrow> json option) \<Rightarrow> world \<Rightarrow> nat \<Rightarrow> post list \<Rightarrow> json list" where
  "verdicts loads w i [] = []"
| "verdicts loads w i (p # ps) =
     verdict loads (sentiment_api w i (post_text p) (post_username p))
       # verdicts loads w (Suc i) ps"

definition accepted :: "(post \<times> json) list \<Rightarrow> (post \<times> json) list" where
  "accepted pvs = filter (\<lambda>pv. both_flags (snd pv)) pvs"

text \<open>What an output record keeps of the post it was made from, and of its verdict.\<close>

definition origin :: "outreach_record \<Rightarrow> string option \<times> string \<times> json" where
  "origin r = (r_user_id r, r_original_post r, r_sentiment_analysis r)"

definition origin_of :: "post \<times> json \<Rightarrow> string option \<times> string \<times> json" where
  "origin_of pv = (post_author_id (fst pv), post_text (fst pv), snd pv)"

text \<open>\<open>stored_entries\<close> are the entries in the user's memory file.\<close>

definition stored_entries :: "memory_manager \<Rightarrow> string \<Rightarrow> mem_entry list" where
  "stored_entries mm user_id =
     (case storage mm user_id of
        Stored d \<Rightarrow> (case md_memories d of None \<Rightarrow> [] | Some ms \<Rightarrow> ms)
      | _ \<Rightarrow> [])"

section \<open>Example inputs\<close>

text \<open>
  An instance of \<open>loads\<close> for the examples: it decodes the documents below as
  \<open>json.loads\<close> does and rejects every other string; the examples hand it, besides
  these, only strings that are not JSON.
\<close>

definition example_loads :: "string \<Rightarrow> json option" where
  \<open>example_loads = map_of
     [(''{"is_negative": true, "needs_support": true}'',
         JObj [(''is_negative'', JBool True), (''needs_support'', JBool True)]),
      (''{"is_negative": true, "needs_support": true, "concerns": null}'',
         JObj [(''is_negative'', JBool True), (''needs_support'', JBool True),
               (''concerns'', JNull)]),
      (''{"is_negative": "no", "needs_support": "yes"}'',
         JObj [(''is_negative'', JStr ''no''), (''needs_support'', JStr ''yes'')]),
      (''{"is_negative": false, "needs_support": true}'',
         JObj [(''is_negative'', JBool False), (''needs_support'', JBool True)]),
      (''{"is_negative": false, "needs_support": false, "reasoning": "quotes ``` only"}'',
         JObj [(''is_negative'', JBool False), (''needs_support'', JBool False),
               (''reasoning'', JStr ''quotes ``` only'')]),
      (''42'', JInt 42)]\<close>

definition distress_verdict :: json where
  "distress_verdict = JObj [(''is_negative'', JBool True), (''needs_support'', JBool True)]"

definition reply_intro :: string where
  "reply_intro = ''Here is the analysis:\<newline>''"

definition reply_block :: string where
  \<open>reply_block = ''\<newline>{"is_negative": true, "needs_support": true}\<newline>''\<close>

definition reply_outro :: string where
  "reply_outro = ''\<newline>Take care.''"

definition fenced_reply :: string where
  "fenced_reply = reply_intro @ ''```json'' @ reply_block @ ''```'' @ reply_outro"

definition plain_fenced_reply :: string where
  "plain_fenced_reply = reply_intro @ ''```'' @ reply_block @ ''```'' @ reply_outro"

definition quoting_block :: string where
  \<open>quoting_block =
     ''{"is_negative": false, "needs_support": false, "reasoning": "quotes ``` only"}''\<close>

definition quoting_cut :: string where
  \<open>quoting_cut = ''{"is_negative": false, "needs_support": false, "reasoning": "quotes''\<close>

definition number_reply :: string where
  "number_reply = ''42''"

definition calm_reply :: string where
  \<open>calm_reply = ''{"is_negative": false, "needs_support": true}''\<close>

definition null_concerns_reply :: string where
  \<open>null_concerns_reply = ''{"is_negative": true, "needs_support": true, "concerns": null}''\<close>

definition words_reply :: string where
  \<open>words_reply = ''{"is_negative": "no", "needs_support": "yes"}''\<close>

definition broken_fenced_reply :: string where
  "broken_fenced_reply = ''negative ```json{oops```''"

definition prose_reply :: string where
  "prose_reply = ''I think this post is negative''"

definition example_user :: user where
  "example_user = \<lparr> u_id = ''42'', u_username = Some ''sam'', u_name = Some ''Sam'' \<rparr>"

definition example_tweet :: tweet where
  "example_tweet =
     \<lparr> t_id = Some ''1001'', t_text = Some ''nothing works out anymore'',
       t_author_id = Some ''42'', t_created_at = None, t_public_metrics = None \<rparr>"

definition example_post :: post where
  "example_post =
     \<lparr> post_id = Some ''1001'', post_text = ''nothing works out anymore'',
       post_author_id = Some ''42'', post_username = ''sam'', post_name = ''Sam'',
       post_created_at = None, post_metrics = [] \<rparr>"

definition example_world :: "tweet list \<Rightarrow> string reply list \<Rightarrow> world" where
  "example_world tweets replies =
     \<lparr> search_api = (\<lambda>r. Response \<lparr> b_errors = None, b_users = Some [example_user],
                                    b_data = Some tweets \<rparr>),
       sentiment_api = (\<lambda>i t u. if i < length replies then replies ! i
                                 else Raised (OtherRequestException ''timed out'')),
       user_api = (\<lambda>j uid. Response (Some [(''username'', ''sam''), (''name'', ''Sam'')])),
       draft_api = (\<lambda>j t u c. Response ''You are not alone.''),
       file_stamp = ''20250101_120000'',
       entry_stamp = (\<lambda>j. ''2025-01-01T12:00:05''),
       scan_stamp = ''2025-01-01T12:00:09'' \<rparr>"

definition twice_world :: world where
  "twice_world =
     example_world [example_tweet, example_tweet] [Response fenced_reply, Response fenced_reply]"

definition calm_world :: world where
  "calm_world = example_world [example_tweet] [Response calm_reply]"

definition null_concerns_world :: world where
  "null_concerns_world = example_world [example_tweet] [Response null_concerns_reply]"

definition mixed_world :: world where
  "mixed_world =
     example_world [example_tweet, example_tweet, example_tweet]
       [Response fenced_reply, Response calm_reply, Response words_reply]"

definition abort_world :: world where
  "abort_world =
     example_world [example_tweet, example_tweet, example_tweet]
       [Response fenced_reply, Response fenced_reply, Response number_reply]"

definition words_world :: world where
  "words_world = example_world [example_tweet] [Response words_reply]"

definition broken_world :: world where
  "broken_world = example_world [example_tweet] [Response broken_fenced_reply]"

definition prose_world :: world where
  "prose_world = example_world [example_tweet] [Response prose_reply]"

definition example_record :: outreach_record where
  "example_record =
     \<lparr> r_username = Some ''sam'', r_user_id = Some ''42'',
       r_profile_url = Some ''https://twitter.com/sam'',
       r_original_post = ''nothing works out anymore'',
       r_post_url = Some ''https://twitter.com/sam/status/1001'',
       r_sentiment_analysis = distress_verdict,
       r_support_message = Drafted ''You are not alone.'',
       r_contact_info =
         Some \<lparr> c_username = Some ''sam'', c_name = Some ''Sam'', c_description = [],
                c_location = None, c_url = None,
                c_profile_url = Some ''https://twitter.com/sam'' \<rparr>,
       r_timestamp = ''2025-01-01T12:00:05'' \<rparr>"

definition example_report :: report where
  "example_report =
     \<lparr> scan_timestamp = ''2025-01-01T12:00:09'', rep_query = [],
       total_posts_scanned = 2, negative_posts_found = 2,
       rep_results = [example_record, example_record] \<rparr>"

definition failing_trends_api :: "int \<Rightarrow> trend_params \<Rightarrow> json reply" where
  "failing_trends_api woeid params = Raised (HTTPError 404 ''404 Client Error: Not Found'')"

definition example_body :: search_body where
  "example_body = \<lparr> b_errors = None, b_users = Some [example_user], b_data = Some [example_tweet] \<rparr>"

text \<open>
  A search service that answers only a request with the given \<open>max_results\<close>, and one
  that returns the query it received as the text of a tweet.
\<close>

definition exact_cap_search_api :: "int \<Rightarrow> search_params \<Rightarrow> search_body reply" where
  "exact_cap_search_api m params =
     (if p_max_results params = m then Response example_body
      else Raised (HTTPError 400 ''400 Client Error: Bad Request''))"

definition echo_search_api :: "search_params \<Rightarrow> search_body reply" where
  "echo_search_api params =
     Response \<lparr> b_errors = None, b_users = None,
                b_data = Some [\<lparr> t_id = None, t_text = Some (p_query params), t_author_id = None,
                                 t_created_at = None, t_public_metrics = None \<rparr>] \<rparr>"

definition failing_draft_api :: "string \<Rightarrow> string reply" where
  "failing_draft_api concerns = Raised (OtherRequestException ''Read timed out.'')"

definition failing_search_api :: "search_params \<Rightarrow> search_body reply" where
  "failing_search_api params = Raised (HTTPError 429 ''429 Client Error: Too Many Requests'')"

definition first_entry :: mem_entry where
  "first_entry =
     \<lparr> m_text = Some ''User said: I feel SAD today and nothing helps'',
       m_timestamp = ''2025-01-01T12:00:00'', m_metadata = [(''role'', ''user'')] \<rparr>"

definition second_entry :: mem_entry where
  "second_entry =
     \<lparr> m_text = Some ''User said: the weather was lovely this morning'',
       m_timestamp = ''2025-01-02T08:30:00'', m_metadata = [(''role'', ''user'')] \<rparr>"

definition third_entry :: mem_entry where
  "third_entry =
     \<lparr> m_text = Some ''User said: still so sad and tired of it all'',
       m_timestamp = ''2025-01-03T21:15:00'', m_metadata = [(''role'', ''user'')] \<rparr>"

definition example_files :: "string \<Rightarrow> mem_file" where
  "example_files user_id =
     (if user_id = ''u1''
      then Stored \<lparr> md_memories = Some [first_entry, second_entry, third_entry], md_count = 3 \<rparr>
      else Missing)"

definition example_manager :: memory_manager where
  "example_manager = memory_manager_init Absent example_files"

section \<open>Lemmas on the text operations\<close>

lemma strip_Nil_iff: "strip q = [] \<longleftrightarrow> list_all isspace q"
proof
  assume "strip q = []"
  then have "dropWhile isspace (rev (dropWhile isspace q)) = []" by (simp add: strip_def)
  then have a: "\<forall>x \<in> set (dropWhile isspace q). isspace x" by (simp add: dropWhile_eq_Nil_conv)
  have "dropWhile isspace q = []"
  proof (rule ccontr)
    assume "dropWhile isspace q \<noteq> []"
    then have "\<not> isspace (hd (dropWhile isspace q))" by (rule hd_dropWhile)
    moreover have "hd (dropWhile isspace q) \<in> set (dropWhile isspace q)"
      using \<open>dropWhile isspace q \<noteq> []\<close> by simp
    ultimately show False using a by blast
  qed
  then show "list_all isspace q" by (simp add: dropWhile_eq_Nil_conv list_all_iff)
next
  assume "list_all isspace q"
  then have "dropWhile isspace q = []" by (simp add: dropWhile_eq_Nil_conv list_all_iff)
  then show "strip q = []" by (simp add: strip_def del: dropWhile_eq_Nil_conv)
qed

lemma partition_first_None: "partition_first sep s = None \<Longrightarrow> \<not> sublist sep s"
proof (induction s)
  case Nil
  then show ?case by (auto split: if_splits)
next
  case (Cons c cs)
  then show ?case by (auto simp: sublist_Cons_right split: if_splits)
qed

lemma partition_first_Some: "partition_first sep s = Some (a, b) \<Longrightarrow> s = a @ sep @ b"
proof (induction s arbitrary: a b)
  case Nil
  then show ?case by (auto split: if_splits)
next
  case (Cons c cs)
  show ?case
  proof (cases "prefix sep (c # cs)")
    case True
    with Cons.prems have ab: "a = []" "b = drop (length sep) (c # cs)" by auto
    from True obtain r where r: "c # cs = sep @ r" by (auto simp: prefix_def)
    then have "drop (length sep) (c # cs) = r" by (metis append_eq_conv_conj)
    with ab r show ?thesis by simp
  next
    case False
    with Cons.prems obtain a' where "partition_first sep cs = Some (a', b)" "a = c # a'"
      by (auto split: if_splits)
    with Cons.IH show ?thesis by simp
  qed
qed

lemma prefix_across:
  assumes "prefix sep (a @ sep @ b)" "a \<noteq> []"
  shows "prefix sep (a @ butlast sep)"
proof (cases "sep = []")
  case True
  then show ?thesis by simp
next
  case False
  have 1: "prefix (a @ butlast sep) (a @ sep @ b)"
    by (metis False append_butlast_last_id append.assoc prefixI same_prefix_prefix)
  have 2: "length sep \<le> length (a @ butlast sep)" using assms(2) by (cases a) auto
  from assms(1) 1 2 show ?thesis
    by (metis prefix_length_prefix)
qed

text \<open>The leftmost occurrence: the separator does not begin inside the part before it.\<close>

lemma partition_first_leftmost:
  "sep \<noteq> [] \<Longrightarrow> \<not> sublist sep (a @ butlast sep) \<Longrightarrow>
   partition_first sep (a @ sep @ b) = Some (a, b)"
proof (induction a)
  case Nil
  then obtain c cs where "sep = c # cs" by (cases sep) auto
  then show ?case by simp
next
  case (Cons x a)
  have np: "\<not> prefix sep ((x # a) @ sep @ b)"
    using prefix_across[of sep "x # a" b] Cons.prems(2) by auto
  have "\<not> sublist sep (a @ butlast sep)"
    using Cons.prems(2) by (simp add: sublist_Cons_right)
  with Cons.IH Cons.prems(1) have "partition_first sep (a @ sep @ b) = Some (a, b)" by simp
  with np show ?case by simp
qed

lemma split_Inr: "sep \<noteq> [] \<Longrightarrow> \<exists>p ps. split sep s = Inr (p # ps)"
proof (induction sep s rule: split.induct)
  case (1 sep s)
  show ?case
  proof (cases "partition_first sep s")
    case None
    with "1.prems" show ?thesis by (subst split.simps) simp
  next
    case (Some ab)
    obtain a b where ab: "ab = (a, b)" by (cases ab)
    from "1.IH"[OF "1.prems" Some ab[symmetric]] "1.prems"
    obtain p ps where "split sep b = Inr (p # ps)" by blast
    with Some ab "1.prems" show ?thesis by (subst split.simps) simp
  qed
qed

lemma split_None: "sep \<noteq> [] \<Longrightarrow> partition_first sep s = None \<Longrightarrow> split sep s = Inr [s]"
  by (subst split.simps) simp

lemma split_Some:
  "sep \<noteq> [] \<Longrightarrow> partition_first sep s = Some (a, b) \<Longrightarrow>
   \<exists>p ps. split sep b = Inr (p # ps) \<and> split sep s = Inr (a # p # ps)"
  using split_Inr[of sep b] by (subst (2) split.simps) auto

lemma split_first:
  "sep \<noteq> [] \<Longrightarrow> split sep s = Inr (p # ps) \<Longrightarrow>
   (partition_first sep s = None \<and> p = s) \<or> (\<exists>b. partition_first sep s = Some (p, b))"
  by (subst (asm) split.simps) (auto split: option.splits sum.splits)

section \<open>Lemmas on the salvage of the reply\<close>

lemma between_fences_Inr:
  assumes "marker \<noteq> []" "sublist marker content"
  shows "\<exists>t. between_fences marker content = Inr t"
proof -
  from assms(2) obtain a b where "partition_first marker content = Some (a, b)"
    using partition_first_None by (cases "partition_first marker content") auto
  from split_Some[OF assms(1) this] obtain p ps where
    s: "split marker content = Inr (a # p # ps)" by blast
  obtain q qs where "split fence p = Inr (q # qs)"
    using split_Inr[of fence p] by (auto simp: fence_def)
  with s show ?thesis by (simp add: between_fences_def and_then_def item_def)
qed

lemma salvage_Inr: "\<exists>t. salvage content = Inr t"
  using between_fences_Inr[of fence_json content] between_fences_Inr[of fence content]
  by (auto simp: salvage_def py_in_def fence_json_def fence_def)

lemma analyze_sentiment_Inr: "\<exists>v. analyze_sentiment loads r = Inr v"
proof (cases r)
  case (Response content)
  obtain t where "salvage content = Inr t" using salvage_Inr by blast
  with Response show ?thesis
    by (cases "loads t") (auto simp: analyze_sentiment_def and_then_def)
next
  case (Raised e)
  then show ?thesis by (simp add: analyze_sentiment_def)
qed

text \<open>
  Where the piece after the first \<open>```json\<close> ends: the next \<open>```json\<close>, if there is one,
  begins at the closing marker or after it, unless backticks after the closing marker
  run into it.
\<close>

lemma fence_cut:
  assumes eq: "body @ ''```'' @ post = a @ ''```json'' @ rest"
    and h2: "\<not> sublist ''```'' (body @ ''``'')"
    and h3: "\<not> prefix ''`json'' post" "\<not> prefix ''``json'' post"
  shows "a = body \<or> (\<exists>x. a = body @ ''```'' @ x)"
proof -
  from eq obtain us where
    "(body = a @ us \<and> us @ ''```'' @ post = ''```json'' @ rest)
     \<or> (body @ us = a \<and> ''```'' @ post = us @ ''```json'' @ rest)"
    by (auto simp: append_eq_append_conv2)
  then show ?thesis
  proof
    assume c: "body = a @ us \<and> us @ ''```'' @ post = ''```json'' @ rest"
    show ?thesis
    proof (cases us)
      case Nil
      with c show ?thesis by simp
    next
      case (Cons u1 r1)
      have "sublist ''```'' (us @ ''``'')"
      proof (cases r1)
        case Nil
        with Cons c show ?thesis by auto
      next
        case (Cons u2 r2)
        note c2 = Cons
        show ?thesis
        proof (cases r2)
          case Nil
          with c2 \<open>us = u1 # r1\<close> c have "us = ''``''" by auto
          then show ?thesis by (simp add: sublist_code)
        next
          case (Cons u3 r3)
          with c2 \<open>us = u1 # r1\<close> c have "us = ''```'' @ r3" by auto
          then show ?thesis by (metis append.assoc sublist_append_rightI)
        qed
      qed
      then have "sublist ''```'' (a @ us @ ''``'')"
        by (metis sublist_append sublist_appendI)
      with c h2 show ?thesis by simp
    qed
  next
    assume c: "body @ us = a \<and> ''```'' @ post = us @ ''```json'' @ rest"
    show ?thesis
    proof (cases us)
      case Nil
      with c show ?thesis by simp
    next
      case (Cons u1 r1)
      note c1 = Cons
      show ?thesis
      proof (cases r1)
        case Nil
        with c1 c have "post = ''`json'' @ rest" by auto
        with h3 show ?thesis by (simp add: prefix_def)
      next
        case (Cons u2 r2)
        note c2 = Cons
        show ?thesis
        proof (cases r2)
          case Nil
          with c1 c2 c have "post = ''``json'' @ rest" by auto
          with h3 show ?thesis by (simp add: prefix_def)
        next
          case (Cons u3 r3)
          with c1 c2 c have "us = ''```'' @ r3" by auto
          with c show ?thesis by auto
        qed
      qed
    qed
  qed
qed


lemma split_fence_body:
  assumes "\<not> sublist fence (body @ butlast fence)"
  shows "split fence body = Inr [body]" and "\<exists>qs. split fence (body @ fence @ x) = Inr (body # qs)"
proof -
  have f: "fence \<noteq> []" by (simp add: fence_def)
  have "\<not> sublist fence body" using assms
    by (metis sublist_append)
  then have "partition_first fence body = None"
    using partition_first_Some[of fence body] by (cases "partition_first fence body") auto
  then show "split fence body = Inr [body]" by (rule split_None[OF f])
  have "partition_first fence (body @ fence @ x) = Some (body, x)"
    using partition_first_leftmost[OF f assms] .
  from split_Some[OF f this] show "\<exists>qs. split fence (body @ fence @ x) = Inr (body # qs)"
    by blast
qed

lemma between_fences_json:
  assumes h1: "\<not> sublist fence_json (pre @ butlast fence_json)"
    and h2: "\<not> sublist fence (body @ butlast fence)"
    and h3: "\<not> prefix ''`json'' post" "\<not> prefix ''``json'' post"
  shows "between_fences fence_json (pre @ fence_json @ body @ fence @ post) = Inr (strip body)"
proof -
  have fj: "fence_json \<noteq> []" by (simp add: fence_json_def)
  let ?tail = "body @ fence @ post"
  have 1: "partition_first fence_json (pre @ fence_json @ ?tail) = Some (pre, ?tail)"
    using partition_first_leftmost[OF fj h1] by simp
  from split_Some[OF fj 1] obtain p ps where
    t: "split fence_json ?tail = Inr (p # ps)"
    and c: "split fence_json (pre @ fence_json @ ?tail) = Inr (pre # p # ps)"
    by blast
  have "\<exists>qs. split fence p = Inr (body # qs)"
    using split_first[OF fj t]
  proof
    assume "partition_first fence_json ?tail = None \<and> p = ?tail"
    then show ?thesis using split_fence_body(2)[OF h2] by simp
  next
    assume "\<exists>b. partition_first fence_json ?tail = Some (p, b)"
    then obtain b where "?tail = p @ fence_json @ b"
      using partition_first_Some by blast
    then have "body @ ''```'' @ post = p @ ''```json'' @ b"
      by (simp add: fence_def fence_json_def)
    from fence_cut[OF this] h2 h3 have "p = body \<or> (\<exists>x. p = body @ fence @ x)"
      by (simp add: fence_def)
    then show ?thesis
      using split_fence_body[OF h2] by auto
  qed
  then obtain qs where "split fence p = Inr (body # qs)" by blast
  with c show ?thesis by (simp add: between_fences_def and_then_def item_def)
qed

lemma between_fences_plain:
  assumes "\<not> sublist fence (pre @ butlast fence)"
    and "\<not> sublist fence (body @ butlast fence)"
  shows "between_fences fence (pre @ fence @ body @ fence @ post) = Inr (strip body)"
proof -
  have f: "fence \<noteq> []" by (simp add: fence_def)
  have 1: "partition_first fence (pre @ fence @ body @ fence @ post)
             = Some (pre, body @ fence @ post)"
    using partition_first_leftmost[OF f assms(1)] by simp
  from split_fence_body(2)[OF assms(2)] obtain qs where
    5: "split fence (body @ fence @ post) = Inr (body # qs)" by blast
  from split_Some[OF f 1] 5
  have 3: "split fence (pre @ fence @ body @ fence @ post) = Inr (pre # body # qs)"
    by auto
  show ?thesis
    using 3 split_fence_body(1)[OF assms(2)]
    by (simp add: between_fences_def and_then_def item_def)
qed

lemma salvage_unfenced: "\<not> py_in fence content \<Longrightarrow> salvage content = Inr content"
proof -
  assume a: "\<not> py_in fence content"
  have "sublist fence fence_json" by (simp add: fence_def fence_json_def sublist_code)
  then have "\<not> py_in fence_json content"
    using a by (metis py_in_def sublist_order.dual_order.trans)
  with a show ?thesis by (simp add: salvage_def)
qed

section \<open>Lemmas on the two stages\<close>

lemma analyze_sentiment_verdict: "analyze_sentiment loads r = Inr (verdict loads r)"
  using analyze_sentiment_Inr[of loads r] by (auto simp: verdict_def)

lemma length_verdicts: "length (verdicts loads w i posts) = length posts"
  by (induction posts arbitrary: i) auto

lemma accepts_dict: "accepts (JObj kvs) = Inr (both_flags (JObj kvs))"
  by (auto simp: accepts_def and_then_def both_flags_def flag_def split: option.splits)

lemma accepts_other: "\<not> is_dict v \<Longrightarrow> accepts v = Inl AttributeError"
  by (cases v) (auto simp: accepts_def and_then_def)

lemma all_str_Inr: "(\<exists>ss. all_str xs = Inr ss) \<longleftrightarrow> list_all is_str xs"
proof (induction xs)
  case Nil
  then show ?case by simp
next
  case (Cons x xs)
  then show ?case by (cases x) (auto simp: and_then_def split: sum.splits)
qed

lemma join_Inr: "(\<exists>s. join sep c = Inr s) \<longleftrightarrow> joinable c"
  by (cases c) (auto simp: and_then_def all_str_Inr[symmetric] split: sum.splits)

lemma announce_dict: "announce (JObj kvs) = join '', '' (concerns_of (JObj kvs))"
  by (auto simp: announce_def and_then_def concerns_of_def split: option.splits)

lemma filter_stage_sound:
  "filter_stage loads w i posts = Inr kept \<Longrightarrow>
   kept = accepted (zip posts (verdicts loads w i posts))
   \<and> list_all well_shaped (verdicts loads w i posts)"
proof (induction posts arbitrary: i kept)
  case Nil
  then show ?case by (simp add: accepted_def)
next
  case (Cons p ps)
  let ?v = "verdict loads (sentiment_api w i (post_text p) (post_username p))"
  have d: "is_dict ?v"
  proof (rule ccontr)
    assume "\<not> is_dict ?v"
    then have "accepts ?v = Inl AttributeError" by (rule accepts_other)
    with Cons.prems show False by (simp add: analyze_sentiment_verdict and_then_def)
  qed
  then obtain kvs where kvs: "?v = JObj kvs" by (cases ?v) auto
  from Cons.prems kvs obtain rest where
    rest: "filter_stage loads w (Suc i) ps = Inr rest"
    and k: "kept = (if both_flags ?v then (p, ?v) # rest else rest)"
    and a: "both_flags ?v \<longrightarrow> (\<exists>s. announce ?v = Inr s)"
    by (auto simp: analyze_sentiment_verdict and_then_def accepts_dict
             split: sum.splits if_splits)
  from a kvs have "both_flags ?v \<longrightarrow> joinable (concerns_of ?v)"
    using join_Inr[of "'', ''" "concerns_of ?v"] by (auto simp: announce_dict)
  with d have ws: "well_shaped ?v" by (simp add: well_shaped_def)
  from Cons.IH[OF rest] k ws show ?case by (auto simp: accepted_def)
qed

lemma filter_stage_complete:
  "list_all well_shaped (verdicts loads w i posts) \<Longrightarrow>
   filter_stage loads w i posts = Inr (accepted (zip posts (verdicts loads w i posts)))"
proof (induction posts arbitrary: i)
  case Nil
  then show ?case by (simp add: accepted_def)
next
  case (Cons p ps)
  let ?v = "verdict loads (sentiment_api w i (post_text p) (post_username p))"
  from Cons.prems have ws: "well_shaped ?v"
    and r: "list_all well_shaped (verdicts loads w (Suc i) ps)"
    by auto
  from ws obtain kvs where kvs: "?v = JObj kvs" by (cases ?v) (auto simp: well_shaped_def)
  from ws have "both_flags ?v \<longrightarrow> (\<exists>s. join '', '' (concerns_of ?v) = Inr s)"
    using join_Inr[of "'', ''" "concerns_of ?v"] by (auto simp: well_shaped_def)
  with kvs have a: "both_flags ?v \<longrightarrow> (\<exists>s. announce ?v = Inr s)" by (simp add: announce_dict)
  show ?case using Cons.IH[OF r] kvs a
    by (auto simp: analyze_sentiment_verdict and_then_def accepts_dict accepted_def)
qed

lemma draft_stage_sound:
  "draft_stage w j items = Inr recs \<Longrightarrow> map origin recs = map origin_of items"
proof (induction items arbitrary: j recs)
  case Nil
  then show ?case by simp
next
  case (Cons it items)
  obtain p a where it: "it = (p, a)" by (cases it)
  from Cons.prems it obtain r rest where
    "draft_stage w (Suc j) items = Inr rest" "recs = r # rest" "origin r = origin_of (p, a)"
    by (auto simp: and_then_def Let_def origin_def origin_of_def split: sum.splits)
  with Cons.IH it show ?case by auto
qed

lemma generate_support_message_Inr:
  "\<not> truthy c \<or> joinable c \<Longrightarrow> \<exists>m. generate_support_message api u c = Inr m"
  using join_Inr[of "'', ''" c]
  by (auto simp: generate_support_message_def concerns_str_def and_then_def
           split: reply.splits)

lemma draft_stage_complete:
  "list_all (\<lambda>pv. is_dict (snd pv) \<and> joinable (concerns_of (snd pv))) items \<Longrightarrow>
   \<exists>recs. draft_stage w j items = Inr recs"
proof (induction items arbitrary: j)
  case Nil
  then show ?case by simp
next
  case (Cons it items)
  obtain p a where it: "it = (p, a)" by (cases it)
  from Cons.prems it obtain kvs where kvs: "a = JObj kvs" and jn: "joinable (concerns_of a)"
    by (cases a) auto
  from Cons.prems Cons.IH obtain rest where rest: "draft_stage w (Suc j) items = Inr rest"
    by auto
  have g: "py_get a ''concerns'' (JList []) = Inr (concerns_of a)"
    using kvs by (simp add: concerns_of_def)
  obtain m where
    "generate_support_message (draft_api w j (post_text p) (post_username p))
       (post_username p) (concerns_of a) = Inr m"
    using generate_support_message_Inr jn by blast
  with rest g it show ?case by (simp add: and_then_def Let_def)
qed

lemma accepted_draftable:
  "list_all well_shaped vs \<Longrightarrow>
   list_all (\<lambda>pv. is_dict (snd pv) \<and> joinable (concerns_of (snd pv))) (accepted (zip posts vs))"
  by (auto simp: list_all_iff accepted_def well_shaped_def dest: set_zip_rightD)

lemma subseq_accepted: "subseq (map fst (accepted (zip posts vs))) posts"
proof -
  have "subseq (map fst (accepted (zip posts vs))) (map fst (zip posts vs))"
    unfolding accepted_def by (intro subseq_map subseq_filter_left)
  also have "subseq (map fst (zip posts vs)) posts"
    by (metis map_fst_zip_take take_is_prefix prefix_imp_subseq)
  finally show ?thesis .
qed

text \<open>A run that ends normally, in terms of its two stages.\<close>

lemma scan_and_analyze_Inr:
  assumes "scan_and_analyze loads w query n dry = Inr (recs, files)"
  defines "posts \<equiv> search_posts (search_api w) query n"
  defines "kept \<equiv> accepted (zip posts (verdicts loads w 0 posts))"
  shows "filter_stage loads w 0 posts = Inr kept"
    and "map origin recs = map origin_of kept"
    and "files = (if recs = [] then []
                  else [(results_file w,
                         \<lparr> scan_timestamp = scan_stamp w, rep_query = query,
                           total_posts_scanned = length posts,
                           negative_posts_found = length kept,
                           rep_results = recs \<rparr>)])"
proof -
  show 1: "filter_stage loads w 0 posts = Inr kept"
  proof (cases "posts = []")
    case True
    then show ?thesis by (simp add: kept_def accepted_def)
  next
    case False
    with assms(1) obtain k where "filter_stage loads w 0 posts = Inr k"
      by (auto simp: scan_and_analyze_def posts_def Let_def and_then_def split: sum.splits)
    with filter_stage_sound[OF this] show ?thesis by (simp add: kept_def)
  qed
  show 2: "map origin recs = map origin_of kept"
  proof (cases "posts = []")
    case True
    with assms(1) show ?thesis
      by (simp add: scan_and_analyze_def posts_def[symmetric] kept_def accepted_def)
  next
    case False
    with assms(1) 1 have "draft_stage w 0 kept = Inr recs"
      by (auto simp: scan_and_analyze_def posts_def[symmetric] Let_def and_then_def
               split: sum.splits)
    then show ?thesis by (rule draft_stage_sound)
  qed
  show "files = (if recs = [] then []
                  else [(results_file w,
                         \<lparr> scan_timestamp = scan_stamp w, rep_query = query,
                           total_posts_scanned = length posts,
                           negative_posts_found = length kept,
                           rep_results = recs \<rparr>)])"
  proof (cases "posts = []")
    case True
    with assms(1) show ?thesis
      by (auto simp: scan_and_analyze_def posts_def[symmetric])
  next
    case False
    with assms(1) 1 show ?thesis
      by (auto simp: scan_and_analyze_def posts_def[symmetric] Let_def and_then_def
               split: sum.splits)
  qed
qed

lemma scan_and_analyze_complete:
  assumes "list_all well_shaped
             (verdicts loads w 0 (search_posts (search_api w) query n))"
  shows "\<exists>recs files. scan_and_analyze loads w query n dry = Inr (recs, files)"
proof -
  let ?posts = "search_posts (search_api w) query n"
  let ?kept = "accepted (zip ?posts (verdicts loads w 0 ?posts))"
  have 1: "filter_stage loads w 0 ?posts = Inr ?kept"
    using assms by (rule filter_stage_complete)
  obtain recs where 2: "draft_stage w 0 ?kept = Inr recs"
    using draft_stage_complete[OF accepted_draftable[OF assms]] by blast
  show ?thesis using 1 2 by (simp add: scan_and_analyze_def Let_def and_then_def)
qed

section \<open>Lemmas on the search\<close>

lemma search_request_eq:
  "search_request query n =
     \<lparr> p_query = (if list_all isspace query then ''lang:en -is:retweet'' else query),
       p_max_results = (if n < 10 then 10 else if 100 < n then 100 else n),
       p_tweet_fields = ''created_at,author_id,public_metrics,text'',
       p_user_fields = ''username,name,description,public_metrics'',
       p_expansions = ''author_id'' \<rparr>"
  by (auto simp: search_request_def strip_Nil_iff default_query_def)

lemma search_posts_request:
  "search_posts api query n =
     (case api \<lparr> p_query = (if list_all isspace query then ''lang:en -is:retweet'' else query),
                p_max_results = (if n < 10 then 10 else if 100 < n then 100 else n),
                p_tweet_fields = ''created_at,author_id,public_metrics,text'',
                p_user_fields = ''username,name,description,public_metrics'',
                p_expansions = ''author_id'' \<rparr> of
        Raised e \<Rightarrow> []
      | Response body \<Rightarrow>
          (case b_errors body of
             Some errs \<Rightarrow> []
           | None \<Rightarrow>
               (case b_data body of
                  None \<Rightarrow> []
                | Some tweets \<Rightarrow>
                    map (make_post (case b_users body of None \<Rightarrow> Map.empty
                                    | Some us \<Rightarrow> users_by_id us)) tweets)))"
  unfolding search_posts_def search_request_eq Let_def ..

section \<open>Lemmas on the memory search\<close>

lemma search_memories_fallback:
  "\<not> mem0_available mm \<Longrightarrow>
   search_memories mm user_id query limit =
     slice_to limit
       (filter (\<lambda>m. py_in (lower query) (lower (entry_text m))) (stored_entries mm user_id))"
  by (auto simp: search_memories_def search_file_memories_def get_file_memory_def
                 stored_entries_def empty_memory_def Let_def
           split: mem_file.splits option.splits)

section \<open>The claims\<close>

subsection \<open>C1: request failures\<close>

text \<open>
  C1, as the code has it. A \<open>RequestException\<close> raised by the request of the post search,
  of the sentiment classification, of the user lookup (and so of the contact lookup) or of
  the message drafting is caught inside that function, which returns its default: the
  empty list, the neutral verdict, \<open>None\<close>, the empty contact, the stock message. The
  trends fetch is different: \<open>fetch_trends_by_woeid\<close> prints the failure and raises it
  again, as its docstring announces, so there the caller receives the exception.
\<close>

theorem request_failure_defaults:
  "(api (search_request query n) = Raised e \<longrightarrow> search_posts api query n = [])
   \<and> analyze_sentiment loads (Raised e) = Inr (error_verdict e)
   \<and> get_user_info (Raised e) = None
   \<and> find_contact_info (Raised e) = None
   \<and> (concerns_str c = Inr cs \<and> drafts cs = Raised e
        \<longrightarrow> generate_support_message drafts u c = Inr (StockMessageFor u))
   \<and> (trends woeid (trend_request m fs) = Raised e
        \<longrightarrow> fetch_trends_by_woeid trends woeid m fs = Inl (RequestException e))"
  by (simp add: search_posts_def analyze_sentiment_def get_user_info_def
        find_contact_info_def generate_support_message_def and_then_def
        fetch_trends_by_woeid_def)

text \<open>
  The theorem at a rate-limited search, a failing drafting request and a trends request
  for an unknown WOEID.
\<close>

theorem request_failure_defaults_witness:
  "search_posts failing_search_api ''feeling sad'' 50 = []
   \<and> generate_support_message failing_draft_api ''sam'' (JList []) = Inr (StockMessageFor ''sam'')
   \<and> fetch_trends_by_woeid failing_trends_api 1 20 None
       = Inl (RequestException (HTTPError 404 ''404 Client Error: Not Found''))"
proof -
  have a: "failing_search_api (search_request ''feeling sad'' 50)
             = Raised (HTTPError 429 ''429 Client Error: Too Many Requests'')"
    by (simp add: failing_search_api_def)
  have b: "concerns_str (JList []) = Inr ''general distress''
             \<and> failing_draft_api ''general distress''
                 = Raised (OtherRequestException ''Read timed out.'')"
    by (simp add: concerns_str_def failing_draft_api_def)
  have c: "failing_trends_api 1 (trend_request 20 None)
             = Raised (HTTPError 404 ''404 Client Error: Not Found'')"
    by (simp add: failing_trends_api_def)
  from a request_failure_defaults[of failing_search_api "''feeling sad''" 50]
  have 1: "search_posts failing_search_api ''feeling sad'' 50 = []"
    by blast
  from b request_failure_defaults[of _ _ _ "OtherRequestException ''Read timed out.''" _
      "JList []" "''general distress''" failing_draft_api "''sam''"]
  have 2: "generate_support_message failing_draft_api ''sam'' (JList [])
             = Inr (StockMessageFor ''sam'')"
    by blast
  from c request_failure_defaults[of _ _ _ "HTTPError 404 ''404 Client Error: Not Found''"
      _ _ _ _ _ failing_trends_api 1 20 None]
  have 3: "fetch_trends_by_woeid failing_trends_api 1 20 None
       = Inl (RequestException (HTTPError 404 ''404 Client Error: Not Found''))"
    by blast
  from 1 2 3 show ?thesis by blast
qed

text \<open>
  C1 as stated fails for the trends fetch: a 404 from the service reaches the caller of
  \<open>fetch_trends_by_woeid\<close> as the exception, no default value is returned.
\<close>

theorem trends_fetch_raises_counterexample:
  "fetch_trends_by_woeid failing_trends_api 1 20 None
     = Inl (RequestException (HTTPError 404 ''404 Client Error: Not Found''))"
  by (simp add: fetch_trends_by_woeid_def failing_trends_api_def)

subsection \<open>C2: the filter stage\<close>

text \<open>
  C2, as the code has it. Whenever the filter stage of \<open>scan_and_analyze\<close> runs to its
  end, it keeps exactly the posts whose verdict holds a true value, in Python's sense,
  under both \<open>is_negative\<close> and \<open>needs_support\<close>; a post with one or neither is left out.
  It runs to its end whenever every verdict is well shaped. For a verdict whose two
  flags are booleans, holding both means that both are \<open>True\<close>.
\<close>

theorem filter_stage_keeps_flagged:
  "(filter_stage loads w i posts = Inr kept
      \<longrightarrow> kept = filter (\<lambda>pv. both_flags (snd pv)) (zip posts (verdicts loads w i posts)))
   \<and> (list_all well_shaped (verdicts loads w i posts)
      \<longrightarrow> filter_stage loads w i posts
            = Inr (filter (\<lambda>pv. both_flags (snd pv)) (zip posts (verdicts loads w i posts))))
   \<and> (map_of kvs ''is_negative'' = Some (JBool a) \<and> map_of kvs ''needs_support'' = Some (JBool b)
      \<longrightarrow> both_flags (JObj kvs) = (a \<and> b))"
proof (intro conjI impI)
  assume "filter_stage loads w i posts = Inr kept"
  then show "kept = filter (\<lambda>pv. both_flags (snd pv)) (zip posts (verdicts loads w i posts))"
    using filter_stage_sound by (simp add: accepted_def)
next
  assume "list_all well_shaped (verdicts loads w i posts)"
  then show "filter_stage loads w i posts
               = Inr (filter (\<lambda>pv. both_flags (snd pv)) (zip posts (verdicts loads w i posts)))"
    using filter_stage_complete by (simp add: accepted_def)
next
  assume "map_of kvs ''is_negative'' = Some (JBool a)
            \<and> map_of kvs ''needs_support'' = Some (JBool b)"
  then show "both_flags (JObj kvs) = (a \<and> b)"
    by (simp add: both_flags_def flag_def)
qed

text \<open>
  Three posts: the first verdict has both flags \<open>True\<close>, the second has \<open>is_negative\<close>
  \<open>False\<close>, the third has two non-empty strings as flags. The first and the third are kept.
\<close>

theorem filter_stage_keeps_flagged_witness:
  "filter_stage example_loads mixed_world 0 [example_post, example_post, example_post]
     = Inr [(example_post, distress_verdict),
            (example_post, JObj [(''is_negative'', JStr ''no''), (''needs_support'', JStr ''yes'')])]
   \<and> list_all well_shaped
        (verdicts example_loads mixed_world 0 [example_post, example_post, example_post])
   \<and> filter (\<lambda>pv. both_flags (snd pv))
        (zip [example_post, example_post, example_post]
           (verdicts example_loads mixed_world 0 [example_post, example_post, example_post]))
     = [(example_post, distress_verdict),
        (example_post, JObj [(''is_negative'', JStr ''no''), (''needs_support'', JStr ''yes'')])]
   \<and> both_flags distress_verdict"
proof -
  let ?posts = "[example_post, example_post, example_post]"
  let ?kept = "[(example_post, distress_verdict),
     (example_post, JObj [(''is_negative'', JStr ''no''), (''needs_support'', JStr ''yes'')])]"
  let ?kvs = "[(''is_negative'', JBool True), (''needs_support'', JBool True)]"
  have a: "filter_stage example_loads mixed_world 0 ?posts = Inr ?kept"
    by code_simp
  have b: "list_all well_shaped (verdicts example_loads mixed_world 0 ?posts)"
    by code_simp
  have c: "map_of ?kvs ''is_negative'' = Some (JBool True)
             \<and> map_of ?kvs ''needs_support'' = Some (JBool True)"
    by simp
  show ?thesis
    using a b c
      filter_stage_keeps_flagged[of example_loads mixed_world 0 ?posts ?kept ?kvs True True]
    by (simp add: distress_verdict_def)
qed

text \<open>
  C2 as stated fails in two ways. A verdict whose flags are the strings \<open>no\<close> and \<open>yes\<close>
  has neither flag \<open>True\<close>, yet both strings are non-empty and the post is kept. A
  verdict with both flags \<open>True\<close> and \<open>concerns\<close> null is accepted, but printing its
  concerns raises \<open>TypeError\<close>: the run ends there and no post is kept.
\<close>

theorem filter_stage_counterexample:
  "filter_stage example_loads words_world 0 [example_post]
     = Inr [(example_post,
             JObj [(''is_negative'', JStr ''no''), (''needs_support'', JStr ''yes'')])]
   \<and> verdicts example_loads null_concerns_world 0 [example_post]
     = [JObj [(''is_negative'', JBool True), (''needs_support'', JBool True),
              (''concerns'', JNull)]]
   \<and> filter_stage example_loads null_concerns_world 0 [example_post] = Inl TypeError"
  by code_simp

subsection \<open>C3: salvaging the reply\<close>

text \<open>
  C3, as the code has it. Cutting the block out of the content never raises, and
  \<open>analyze_sentiment\<close> returns what \<open>json.loads\<close> makes of the cut text. The cut text is
  the stripped text between the leftmost \<open>```json\<close> marker and the next \<open>```\<close>, or,
  in a content without \<open>```json\<close>, between the leftmost \<open>```\<close> and the next one. So the
  JSON between the markers is returned when it is valid and the cut ends at its closing
  marker: no \<open>```\<close> begins inside the body, and the closing marker is not run into by
  backticks that open another \<open>```json\<close>. When \<open>json.loads\<close> rejects the cut text with
  \<open>JSONDecodeError\<close>, the fallback verdict built from substring tests on the cut text is
  returned instead of raising.
\<close>

theorem analyze_sentiment_salvages:
  "(\<exists>cut. salvage content = Inr cut)
   \<and> (salvage content = Inr text \<and> loads text = Some v
      \<longrightarrow> analyze_sentiment loads (Response content) = Inr v)
   \<and> (\<not> py_in ''```json'' (pre @ ''```jso'') \<and> \<not> py_in ''```'' (body @ ''``'')
        \<and> \<not> prefix ''`json'' post \<and> \<not> prefix ''``json'' post
        \<and> loads (strip body) = Some v
      \<longrightarrow> analyze_sentiment loads (Response (pre @ ''```json'' @ body @ ''```'' @ post)) = Inr v)
   \<and> (\<not> py_in ''```json'' (pre @ ''```'' @ body @ ''```'' @ post)
        \<and> \<not> py_in ''```'' (pre @ ''``'') \<and> \<not> py_in ''```'' (body @ ''``'')
        \<and> loads (strip body) = Some v
      \<longrightarrow> analyze_sentiment loads (Response (pre @ ''```'' @ body @ ''```'' @ post)) = Inr v)
   \<and> (salvage content = Inr text \<and> loads text = None
      \<longrightarrow> analyze_sentiment loads (Response content) = Inr (fallback_verdict text)
          \<and> fallback_verdict text = JObj
               [(''is_negative'',
                   JBool (py_in ''negative'' (lower text) \<or> py_in ''true'' (lower text))),
                (''sentiment'',
                   JStr (if py_in ''negative'' (lower text) then ''negative'' else ''neutral'')),
                (''severity'', JStr ''medium''),
                (''concerns'', JList []),
                (''needs_support'', JBool True),
                (''reasoning'', JStr (take 200 text))])"
proof (intro conjI impI)
  show "\<exists>cut. salvage content = Inr cut"
    by (rule salvage_Inr)
next
  assume "salvage content = Inr text \<and> loads text = Some v"
  then show "analyze_sentiment loads (Response content) = Inr v"
    by (simp add: analyze_sentiment_def and_then_def)
next
  assume h: "\<not> py_in ''```json'' (pre @ ''```jso'') \<and> \<not> py_in ''```'' (body @ ''``'')
        \<and> \<not> prefix ''`json'' post \<and> \<not> prefix ''``json'' post
        \<and> loads (strip body) = Some v"
  have "between_fences fence_json (pre @ fence_json @ body @ fence @ post) = Inr (strip body)"
    using h by (intro between_fences_json) (simp_all add: py_in_def fence_json_def fence_def)
  moreover have "py_in fence_json (pre @ fence_json @ body @ fence @ post)"
    by (simp add: py_in_def)
  ultimately have "salvage (pre @ fence_json @ body @ fence @ post) = Inr (strip body)"
    by (simp add: salvage_def)
  with h show
    "analyze_sentiment loads (Response (pre @ ''```json'' @ body @ ''```'' @ post)) = Inr v"
    by (simp add: analyze_sentiment_def and_then_def fence_json_def fence_def)
next
  assume h: "\<not> py_in ''```json'' (pre @ ''```'' @ body @ ''```'' @ post)
        \<and> \<not> py_in ''```'' (pre @ ''``'') \<and> \<not> py_in ''```'' (body @ ''``'')
        \<and> loads (strip body) = Some v"
  have "between_fences fence (pre @ fence @ body @ fence @ post) = Inr (strip body)"
    using h by (intro between_fences_plain) (simp_all add: py_in_def fence_def)
  moreover have "py_in fence (pre @ fence @ body @ fence @ post)"
    by (simp add: py_in_def)
  moreover have "\<not> py_in fence_json (pre @ fence @ body @ fence @ post)"
    using h by (simp add: fence_json_def fence_def)
  ultimately have "salvage (pre @ fence @ body @ fence @ post) = Inr (strip body)"
    by (simp add: salvage_def)
  with h show
    "analyze_sentiment loads (Response (pre @ ''```'' @ body @ ''```'' @ post)) = Inr v"
    by (simp add: analyze_sentiment_def and_then_def fence_def)
next
  assume "salvage content = Inr text \<and> loads text = None"
  then show "analyze_sentiment loads (Response content) = Inr (fallback_verdict text)"
    by (simp add: analyze_sentiment_def and_then_def)
next
  show "fallback_verdict text = JObj
               [(''is_negative'',
                   JBool (py_in ''negative'' (lower text) \<or> py_in ''true'' (lower text))),
                (''sentiment'',
                   JStr (if py_in ''negative'' (lower text) then ''negative'' else ''neutral'')),
                (''severity'', JStr ''medium''),
                (''concerns'', JList []),
                (''needs_support'', JBool True),
                (''reasoning'', JStr (take 200 text))]"
    by (simp add: fallback_verdict_def)
qed

text \<open>
  A reply that is JSON as it stands, a reply with prose around a \<open>```json\<close> block, the
  same block between plain markers, and a reply in prose, which gets the fallback verdict.
\<close>

theorem analyze_sentiment_salvages_witness:
  "analyze_sentiment example_loads (Response calm_reply)
     = Inr (JObj [(''is_negative'', JBool False), (''needs_support'', JBool True)])
   \<and> analyze_sentiment example_loads
      (Response (reply_intro @ ''```json'' @ reply_block @ ''```'' @ reply_outro))
     = Inr distress_verdict
   \<and> analyze_sentiment example_loads
      (Response (reply_intro @ ''```'' @ reply_block @ ''```'' @ reply_outro))
     = Inr distress_verdict
   \<and> analyze_sentiment example_loads (Response prose_reply)
     = Inr (fallback_verdict prose_reply)
   \<and> fallback_verdict prose_reply = JObj
         [(''is_negative'', JBool True), (''sentiment'', JStr ''negative''),
          (''severity'', JStr ''medium''), (''concerns'', JList []),
          (''needs_support'', JBool True),
          (''reasoning'', JStr ''I think this post is negative'')]"
proof -
  let ?calm = "JObj [(''is_negative'', JBool False), (''needs_support'', JBool True)]"
  have z: "salvage calm_reply = Inr calm_reply \<and> example_loads calm_reply = Some ?calm"
    by code_simp
  have a: "\<not> py_in ''```json'' (reply_intro @ ''```jso'')
        \<and> \<not> py_in ''```'' (reply_block @ ''``'')
        \<and> \<not> prefix ''`json'' reply_outro \<and> \<not> prefix ''``json'' reply_outro
        \<and> example_loads (strip reply_block) = Some distress_verdict"
    by code_simp
  have b: "\<not> py_in ''```json'' (reply_intro @ ''```'' @ reply_block @ ''```'' @ reply_outro)
        \<and> \<not> py_in ''```'' (reply_intro @ ''``'') \<and> \<not> py_in ''```'' (reply_block @ ''``'')
        \<and> example_loads (strip reply_block) = Some distress_verdict"
    by code_simp
  have c: "salvage prose_reply = Inr prose_reply \<and> example_loads prose_reply = None"
    by code_simp
  have d: "fallback_verdict prose_reply = JObj
         [(''is_negative'', JBool True), (''sentiment'', JStr ''negative''),
          (''severity'', JStr ''medium''), (''concerns'', JList []),
          (''needs_support'', JBool True),
          (''reasoning'', JStr ''I think this post is negative'')]"
    by code_simp
  from z analyze_sentiment_salvages[of calm_reply calm_reply example_loads ?calm]
  have 0: "analyze_sentiment example_loads (Response calm_reply) = Inr ?calm"
    by blast
  from a analyze_sentiment_salvages[of _ _ example_loads distress_verdict
      reply_intro reply_block reply_outro]
  have 1: "analyze_sentiment example_loads
             (Response (reply_intro @ ''```json'' @ reply_block @ ''```'' @ reply_outro))
             = Inr distress_verdict"
    by blast
  from b analyze_sentiment_salvages[of _ _ example_loads distress_verdict
      reply_intro reply_block reply_outro]
  have 2: "analyze_sentiment example_loads
             (Response (reply_intro @ ''```'' @ reply_block @ ''```'' @ reply_outro))
             = Inr distress_verdict"
    by blast
  from c analyze_sentiment_salvages[of prose_reply prose_reply example_loads]
  have 3: "analyze_sentiment example_loads (Response prose_reply)
             = Inr (fallback_verdict prose_reply)"
    by blast
  from 0 1 2 3 d show ?thesis by blast
qed

text \<open>
  C3 as stated fails for a valid JSON block whose text contains three backticks. The
  block below is valid JSON with both flags \<open>false\<close> and stands between a \<open>```json\<close>
  marker and a closing \<open>```\<close>, but the cut ends at the backticks inside its last string;
  the cut text is not JSON, and the fallback verdict is returned in place of the decoded
  block, with \<open>is_negative\<close> and \<open>needs_support\<close> \<open>True\<close>.
\<close>

theorem salvage_cuts_inside_block_counterexample:
  "example_loads quoting_block
     = Some (JObj [(''is_negative'', JBool False), (''needs_support'', JBool False),
                   (''reasoning'', JStr ''quotes ``` only'')])
   \<and> salvage (''```json'' @ quoting_block @ ''```'') = Inr quoting_cut
   \<and> example_loads quoting_cut = None
   \<and> analyze_sentiment example_loads (Response (''```json'' @ quoting_block @ ''```''))
       = Inr (fallback_verdict quoting_cut)
   \<and> py_get (fallback_verdict quoting_cut) ''is_negative'' JNull = Inr (JBool True)
   \<and> py_get (fallback_verdict quoting_cut) ''needs_support'' JNull = Inr (JBool True)"
  by code_simp

subsection \<open>C4: the results cap\<close>

text \<open>
  C4. For every integer \<open>max_results\<close> given to \<open>search_posts\<close>, the request that
  \<open>search_posts\<close> makes carries 10 when the input is below 10, 100 when it is above 100,
  and the input itself otherwise, a value from 10 to 100: whatever the service is,
  \<open>search_posts\<close> returns what the reply to the request with that value gives, nothing
  after a failure or a body with errors, and else the posts made from its tweets.
\<close>

theorem max_results_clamped:
  "(\<exists>q. \<forall>api.
      search_posts api query n =
        (case api \<lparr> p_query = q,
                   p_max_results = (if n < 10 then 10 else if 100 < n then 100 else n),
                   p_tweet_fields = ''created_at,author_id,public_metrics,text'',
                   p_user_fields = ''username,name,description,public_metrics'',
                   p_expansions = ''author_id'' \<rparr> of
           Raised e \<Rightarrow> []
         | Response body \<Rightarrow>
             (case b_errors body of
                Some errs \<Rightarrow> []
              | None \<Rightarrow>
                  (case b_data body of
                     None \<Rightarrow> []
                   | Some tweets \<Rightarrow>
                       map (make_post (case b_users body of None \<Rightarrow> Map.empty
                                       | Some us \<Rightarrow> users_by_id us)) tweets))))
   \<and> p_max_results (search_request query n)
       = (if n < 10 then 10 else if 100 < n then 100 else n)
   \<and> 10 \<le> p_max_results (search_request query n)
   \<and> p_max_results (search_request query n) \<le> 100"
proof (intro conjI)
  show "\<exists>q. \<forall>api.
      search_posts api query n =
        (case api \<lparr> p_query = q,
                   p_max_results = (if n < 10 then 10 else if 100 < n then 100 else n),
                   p_tweet_fields = ''created_at,author_id,public_metrics,text'',
                   p_user_fields = ''username,name,description,public_metrics'',
                   p_expansions = ''author_id'' \<rparr> of
           Raised e \<Rightarrow> []
         | Response body \<Rightarrow>
             (case b_errors body of
                Some errs \<Rightarrow> []
              | None \<Rightarrow>
                  (case b_data body of
                     None \<Rightarrow> []
                   | Some tweets \<Rightarrow>
                       map (make_post (case b_users body of None \<Rightarrow> Map.empty
                                       | Some us \<Rightarrow> users_by_id us)) tweets)))"
    using search_posts_request[of _ query n] by blast
qed (auto simp: search_request_def)

text \<open>
  A service that answers only the request with \<open>max_results\<close> 100, 10 or 50 and refuses
  every other: the searches with the inputs 5000, -3 and 50 get its answer.
\<close>

theorem max_results_clamped_witness:
  "search_posts (exact_cap_search_api 100) ''feeling sad'' 5000 = [example_post]
   \<and> search_posts (exact_cap_search_api 10) ''feeling sad'' (- 3) = [example_post]
   \<and> search_posts (exact_cap_search_api 50) ''feeling sad'' 50 = [example_post]
   \<and> search_posts (exact_cap_search_api 5000) ''feeling sad'' 5000 = []"
proof -
  have ev: "map (make_post (users_by_id [example_user])) [example_tweet] = [example_post]"
    by (simp add: make_post_def users_by_id_def example_user_def example_tweet_def
          example_post_def)
  from max_results_clamped[of "''feeling sad''" 5000] obtain q where
    "search_posts (exact_cap_search_api 100) ''feeling sad'' 5000
       = (case exact_cap_search_api 100
                 \<lparr> p_query = q, p_max_results = 100,
                   p_tweet_fields = ''created_at,author_id,public_metrics,text'',
                   p_user_fields = ''username,name,description,public_metrics'',
                   p_expansions = ''author_id'' \<rparr> of
            Raised e \<Rightarrow> []
          | Response body \<Rightarrow>
              (case b_errors body of
                 Some errs \<Rightarrow> []
               | None \<Rightarrow>
                   (case b_data body of
                      None \<Rightarrow> []
                    | Some tweets \<Rightarrow>
                        map (make_post (case b_users body of None \<Rightarrow> Map.empty
                                        | Some us \<Rightarrow> users_by_id us)) tweets)))"
      "search_posts (exact_cap_search_api 5000) ''feeling sad'' 5000
       = (case exact_cap_search_api 5000
                 \<lparr> p_query = q, p_max_results = 100,
                   p_tweet_fields = ''created_at,author_id,public_metrics,text'',
                   p_user_fields = ''username,name,description,public_metrics'',
                   p_expansions = ''author_id'' \<rparr> of
            Raised e \<Rightarrow> []
          | Response body \<Rightarrow>
              (case b_errors body of
                 Some errs \<Rightarrow> []
               | None \<Rightarrow>
                   (case b_data body of
                      None \<Rightarrow> []
                    | Some tweets \<Rightarrow>
                        map (make_post (case b_users body of None \<Rightarrow> Map.empty
                                        | Some us \<Rightarrow> users_by_id us)) tweets)))"
    by auto
  then have 1: "search_posts (exact_cap_search_api 100) ''feeling sad'' 5000 = [example_post]"
    and 4: "search_posts (exact_cap_search_api 5000) ''feeling sad'' 5000 = []"
    using ev by (simp_all add: exact_cap_search_api_def example_body_def)
  from max_results_clamped[of "''feeling sad''" "- 3"] obtain q where
    "search_posts (exact_cap_search_api 10) ''feeling sad'' (- 3)
       = (case exact_cap_search_api 10
                 \<lparr> p_query = q, p_max_results = 10,
                   p_tweet_fields = ''created_at,author_id,public_metrics,text'',
                   p_user_fields = ''username,name,description,public_metrics'',
                   p_expansions = ''author_id'' \<rparr> of
            Raised e \<Rightarrow> []
          | Response body \<Rightarrow>
              (case b_errors body of
                 Some errs \<Rightarrow> []
               | None \<Rightarrow>
                   (case b_data body of
                      None \<Rightarrow> []
                    | Some tweets \<Rightarrow>
                        map (make_post (case b_users body of None \<Rightarrow> Map.empty
                                        | Some us \<Rightarrow> users_by_id us)) tweets)))"
    by auto
  then have 2: "search_posts (exact_cap_search_api 10) ''feeling sad'' (- 3) = [example_post]"
    using ev by (simp add: exact_cap_search_api_def example_body_def)
  from max_results_clamped[of "''feeling sad''" 50] obtain q where
    "search_posts (exact_cap_search_api 50) ''feeling sad'' 50
       = (case exact_cap_search_api 50
                 \<lparr> p_query = q, p_max_results = 50,
                   p_tweet_fields = ''created_at,author_id,public_metrics,text'',
                   p_user_fields = ''username,name,description,public_metrics'',
                   p_expansions = ''author_id'' \<rparr> of
            Raised e \<Rightarrow> []
          | Response body \<Rightarrow>
              (case b_errors body of
                 Some errs \<Rightarrow> []
               | None \<Rightarrow>
                   (case b_data body of
                      None \<Rightarrow> []
                    | Some tweets \<Rightarrow>
                        map (make_post (case b_users body of None \<Rightarrow> Map.empty
                                        | Some us \<Rightarrow> users_by_id us)) tweets)))"
    by auto
  then have 3: "search_posts (exact_cap_search_api 50) ''feeling sad'' 50 = [example_post]"
    using ev by (simp add: exact_cap_search_api_def example_body_def)
  from 1 2 3 4 show ?thesis by blast
qed

subsection \<open>C5: the default query\<close>

text \<open>
  C5. For every query given to \<open>search_posts\<close> that is empty or consists of whitespace
  only, the request that \<open>search_posts\<close> makes carries the literal
  \<open>lang:en -is:retweet\<close> as its query; every other query is sent as it is. Whatever the
  service is, \<open>search_posts\<close> returns what the reply to the request with that query gives.
\<close>

theorem blank_query_default:
  "(\<exists>m. \<forall>api.
      search_posts api query n =
        (case api \<lparr> p_query = (if list_all isspace query then ''lang:en -is:retweet'' else query),
                   p_max_results = m,
                   p_tweet_fields = ''created_at,author_id,public_metrics,text'',
                   p_user_fields = ''username,name,description,public_metrics'',
                   p_expansions = ''author_id'' \<rparr> of
           Raised e \<Rightarrow> []
         | Response body \<Rightarrow>
             (case b_errors body of
                Some errs \<Rightarrow> []
              | None \<Rightarrow>
                  (case b_data body of
                     None \<Rightarrow> []
                   | Some tweets \<Rightarrow>
                       map (make_post (case b_users body of None \<Rightarrow> Map.empty
                                       | Some us \<Rightarrow> users_by_id us)) tweets))))
   \<and> p_query (search_request query n)
       = (if list_all isspace query then ''lang:en -is:retweet'' else query)"
proof (intro conjI)
  show "\<exists>m. \<forall>api.
      search_posts api query n =
        (case api \<lparr> p_query = (if list_all isspace query then ''lang:en -is:retweet'' else query),
                   p_max_results = m,
                   p_tweet_fields = ''created_at,author_id,public_metrics,text'',
                   p_user_fields = ''username,name,description,public_metrics'',
                   p_expansions = ''author_id'' \<rparr> of
           Raised e \<Rightarrow> []
         | Response body \<Rightarrow>
             (case b_errors body of
                Some errs \<Rightarrow> []
              | None \<Rightarrow>
                  (case b_data body of
                     None \<Rightarrow> []
                   | Some tweets \<Rightarrow>
                       map (make_post (case b_users body of None \<Rightarrow> Map.empty
                                       | Some us \<Rightarrow> users_by_id us)) tweets)))"
    using search_posts_request[of _ query n] by blast
qed (auto simp: search_request_def strip_Nil_iff default_query_def)

text \<open>
  A service that returns the query it received as the text of a tweet: an empty query
  and one of blanks come back as the default, another query as itself.
\<close>

theorem blank_query_default_witness:
  "map post_text (search_posts echo_search_api [] 50) = [''lang:en -is:retweet'']
   \<and> map post_text (search_posts echo_search_api [CHR '' '', CHR 0x09, CHR 0x0A] 50)
       = [''lang:en -is:retweet'']
   \<and> map post_text (search_posts echo_search_api ''feeling sad'' 50) = [''feeling sad'']"
proof -
  have a: "list_all isspace []" by simp
  have b: "list_all isspace [CHR '' '', CHR 0x09, CHR 0x0A]" by code_simp
  have c: "\<not> list_all isspace ''feeling sad''" by code_simp
  from blank_query_default[of "[]" 50] a
  have 1: "map post_text (search_posts echo_search_api [] 50) = [''lang:en -is:retweet'']"
    by (auto simp: echo_search_api_def make_post_def)
  from blank_query_default[of "[CHR '' '', CHR 0x09, CHR 0x0A]" 50] b
  have 2: "map post_text (search_posts echo_search_api [CHR '' '', CHR 0x09, CHR 0x0A] 50)
             = [''lang:en -is:retweet'']"
    by (auto simp: echo_search_api_def make_post_def)
  from blank_query_default[of "''feeling sad''" 50] c
  have 3: "map post_text (search_posts echo_search_api ''feeling sad'' 50) = [''feeling sad'']"
    by (auto simp: echo_search_api_def make_post_def)
  from 1 2 3 show ?thesis by blast
qed

subsection \<open>C6: the report file\<close>

text \<open>
  C6, as the code has it. A run of \<open>scan_and_analyze\<close> that ends normally writes one
  report file, named \<open>support_outreach_\<close> with the time stamp, exactly when it drafted at
  least one record, and the report then holds all the records of the run with their
  contact data; when no post was accepted (or none was found) it writes no file. Records
  are drafted exactly when the filter stage accepted a post.
\<close>

theorem report_written_iff_records:
  "scan_and_analyze loads w query n dry = Inr (recs, files) \<longrightarrow>
     files = (if recs = [] then []
              else [(''support_outreach_'' @ file_stamp w @ ''.json'',
                     \<lparr> scan_timestamp = scan_stamp w, rep_query = query,
                       total_posts_scanned = length (search_posts (search_api w) query n),
                       negative_posts_found = length recs,
                       rep_results = recs \<rparr>)])
     \<and> (recs = [] \<longleftrightarrow>
          filter (\<lambda>pv. both_flags (snd pv))
            (zip (search_posts (search_api w) query n)
               (verdicts loads w 0 (search_posts (search_api w) query n))) = [])"
proof
  assume h: "scan_and_analyze loads w query n dry = Inr (recs, files)"
  let ?posts = "search_posts (search_api w) query n"
  let ?kept = "accepted (zip ?posts (verdicts loads w 0 ?posts))"
  have "map origin recs = map origin_of ?kept"
    using scan_and_analyze_Inr(2)[OF h] .
  then have "length (map origin recs) = length (map origin_of ?kept)" by simp
  then have len: "length recs = length ?kept" by simp
  have "files = (if recs = [] then []
                 else [(results_file w,
                        \<lparr> scan_timestamp = scan_stamp w, rep_query = query,
                          total_posts_scanned = length ?posts,
                          negative_posts_found = length ?kept,
                          rep_results = recs \<rparr>)])"
    using scan_and_analyze_Inr(3)[OF h] .
  with len show "files = (if recs = [] then []
              else [(''support_outreach_'' @ file_stamp w @ ''.json'',
                     \<lparr> scan_timestamp = scan_stamp w, rep_query = query,
                       total_posts_scanned = length ?posts,
                       negative_posts_found = length recs,
                       rep_results = recs \<rparr>)])
     \<and> (recs = [] \<longleftrightarrow> filter (\<lambda>pv. both_flags (snd pv)) (zip ?posts (verdicts loads w 0 ?posts)) = [])"
    by (auto simp: results_file_def accepted_def)
qed

text \<open>A run that accepts two posts writes one file with both records.\<close>

theorem report_written_iff_records_witness:
  "scan_and_analyze example_loads twice_world [] 50 True
     = Inr ([example_record, example_record],
            [(''support_outreach_20250101_120000.json'', example_report)])
   \<and> length [(''support_outreach_20250101_120000.json'', example_report)] = 1
   \<and> rep_results example_report = [example_record, example_record]"
proof -
  have h: "scan_and_analyze example_loads twice_world [] 50 True
     = Inr ([example_record, example_record],
            [(''support_outreach_20250101_120000.json'', example_report)])"
    by code_simp
  show ?thesis
    using h report_written_iff_records[of example_loads twice_world "[]" 50 True
        "[example_record, example_record]"
        "[(''support_outreach_20250101_120000.json'', example_report)]"]
    by (simp add: example_report_def)
qed

text \<open>
  C6 as stated fails for a run in which no post is accepted: the run below finds one
  post, its verdict is not negative, and the run ends without writing a file.
\<close>

theorem no_report_without_records_counterexample:
  "scan_and_analyze example_loads calm_world [] 50 False = Inr ([], [])"
  by code_simp

subsection \<open>C7: order of processing\<close>

text \<open>
  C7, as the code has it. In a run of \<open>scan_and_analyze\<close> that ends normally, the posts
  are handled in the order in which the search returned them, nothing is reordered and
  nothing is merged: the filter stage keeps the posts at the accepted positions of the
  list, a subsequence of it in which a post that occurs twice and is accepted twice is
  kept twice, and the records are, in the same order, one for each kept post, each with
  the author, the text and the verdict of its post. A run ends normally whenever every
  verdict is well shaped. A run that an exception ends returns no records.
\<close>

theorem records_follow_search_order:
  "(scan_and_analyze loads w query n dry = Inr (recs, files) \<longrightarrow>
      (\<exists>kept.
         filter_stage loads w 0 (search_posts (search_api w) query n) = Inr kept
         \<and> kept = filter (\<lambda>pv. both_flags (snd pv))
                    (zip (search_posts (search_api w) query n)
                       (verdicts loads w 0 (search_posts (search_api w) query n)))
         \<and> subseq (map fst kept) (search_posts (search_api w) query n)
         \<and> map origin recs = map origin_of kept))
   \<and> (list_all well_shaped (verdicts loads w 0 (search_posts (search_api w) query n)) \<longrightarrow>
        (\<exists>rs fs. scan_and_analyze loads w query n dry = Inr (rs, fs)))"
proof (intro conjI impI)
  assume h: "scan_and_analyze loads w query n dry = Inr (recs, files)"
  let ?posts = "search_posts (search_api w) query n"
  let ?kept = "accepted (zip ?posts (verdicts loads w 0 ?posts))"
  have 1: "filter_stage loads w 0 ?posts = Inr ?kept"
    using scan_and_analyze_Inr(1)[OF h] .
  have 2: "?kept = filter (\<lambda>pv. both_flags (snd pv)) (zip ?posts (verdicts loads w 0 ?posts))"
    by (simp add: accepted_def)
  have 3: "subseq (map fst ?kept) ?posts"
    by (rule subseq_accepted)
  have 4: "map origin recs = map origin_of ?kept"
    using scan_and_analyze_Inr(2)[OF h] .
  from 1 2 3 4 show "\<exists>kept.
         filter_stage loads w 0 ?posts = Inr kept
         \<and> kept = filter (\<lambda>pv. both_flags (snd pv)) (zip ?posts (verdicts loads w 0 ?posts))
         \<and> subseq (map fst kept) ?posts
         \<and> map origin recs = map origin_of kept"
    by blast
next
  assume "list_all well_shaped (verdicts loads w 0 (search_posts (search_api w) query n))"
  then show "\<exists>rs fs. scan_and_analyze loads w query n dry = Inr (rs, fs)"
    by (rule scan_and_analyze_complete)
qed

text \<open>The same post found twice and accepted twice gives two records.\<close>

theorem records_follow_search_order_witness:
  "search_posts (search_api twice_world) [] 50 = [example_post, example_post]
   \<and> list_all well_shaped
        (verdicts example_loads twice_world 0 (search_posts (search_api twice_world) [] 50))
   \<and> scan_and_analyze example_loads twice_world [] 50 False
       = Inr ([example_record, example_record],
              [(''support_outreach_20250101_120000.json'', example_report)])
   \<and> filter_stage example_loads twice_world 0 [example_post, example_post]
       = Inr [(example_post, distress_verdict), (example_post, distress_verdict)]
   \<and> map origin [example_record, example_record]
       = map origin_of [(example_post, distress_verdict), (example_post, distress_verdict)]"
proof -
  have p: "search_posts (search_api twice_world) [] 50 = [example_post, example_post]"
    by code_simp
  have s: "list_all well_shaped
        (verdicts example_loads twice_world 0 (search_posts (search_api twice_world) [] 50))"
    by code_simp
  have h: "scan_and_analyze example_loads twice_world [] 50 False
       = Inr ([example_record, example_record],
              [(''support_outreach_20250101_120000.json'', example_report)])"
    by code_simp
  have f: "filter_stage example_loads twice_world 0 [example_post, example_post]
       = Inr [(example_post, distress_verdict), (example_post, distress_verdict)]"
    by code_simp
  from h records_follow_search_order[of example_loads twice_world "[]" 50 False
        "[example_record, example_record]"
        "[(''support_outreach_20250101_120000.json'', example_report)]"]
  obtain kept where
    k: "filter_stage example_loads twice_world 0 (search_posts (search_api twice_world) [] 50)
          = Inr kept"
    and m: "map origin [example_record, example_record] = map origin_of kept"
    by blast
  from k p f have "kept = [(example_post, distress_verdict), (example_post, distress_verdict)]"
    by (simp only: sum.inject)
  with m have "map origin [example_record, example_record]
       = map origin_of [(example_post, distress_verdict), (example_post, distress_verdict)]"
    by (simp only:)
  with p s h f show ?thesis by blast
qed

text \<open>
  C7 as stated fails for a run that does not end normally. The search returns the same
  post three times; the first two verdicts have both flags \<open>True\<close>, the third reply is
  the JSON number 42, which has no \<open>get\<close>. The run ends with \<open>AttributeError\<close> at the
  third post, and the post accepted twice yields no record.
\<close>

theorem no_records_after_abort_counterexample:
  "search_posts (search_api abort_world) [] 50 = [example_post, example_post, example_post]
   \<and> verdicts example_loads abort_world 0 [example_post, example_post, example_post]
       = [JObj [(''is_negative'', JBool True), (''needs_support'', JBool True)],
          JObj [(''is_negative'', JBool True), (''needs_support'', JBool True)],
          JInt 42]
   \<and> scan_and_analyze example_loads abort_world [] 50 False = Inl AttributeError"
  by code_simp

subsection \<open>C8: the memory search without Mem0\<close>

text \<open>
  C8, as the code has it. When the Mem0 library is unavailable, \<open>search_memories\<close>
  returns, for every user and query and every limit that is not negative, the stored
  entries whose lower-cased text contains the lower-cased query as a substring (both
  lower-cased by \<open>str.lower\<close>), in stored order, cut to the first \<open>limit\<close> of them. For a
  negative limit the slice instead drops the last \<open>-limit\<close> matching entries.
\<close>

theorem search_memories_without_mem0:
  "\<not> mem0_available mm \<longrightarrow>
     (0 \<le> limit \<longrightarrow>
        search_memories mm user_id query limit
          = take (nat limit)
              (filter (\<lambda>m. py_in (lower query) (lower (entry_text m)))
                 (stored_entries mm user_id)))
     \<and> (limit < 0 \<longrightarrow>
        search_memories mm user_id query limit
          = take (length (filter (\<lambda>m. py_in (lower query) (lower (entry_text m)))
                            (stored_entries mm user_id)) - nat (- limit))
              (filter (\<lambda>m. py_in (lower query) (lower (entry_text m)))
                 (stored_entries mm user_id)))"
proof (intro impI conjI)
  assume a: "\<not> mem0_available mm" and "0 \<le> limit"
  then show "search_memories mm user_id query limit
        = take (nat limit)
            (filter (\<lambda>m. py_in (lower query) (lower (entry_text m)))
               (stored_entries mm user_id))"
    using search_memories_fallback[OF a] by (simp add: slice_to_def)
next
  assume a: "\<not> mem0_available mm" and neg: "limit < 0"
  have eq: "nat (int k + limit) = k - nat (- limit)" for k
    using neg by linarith
  show "search_memories mm user_id query limit
        = take (length (filter (\<lambda>m. py_in (lower query) (lower (entry_text m)))
                          (stored_entries mm user_id)) - nat (- limit))
            (filter (\<lambda>m. py_in (lower query) (lower (entry_text m)))
               (stored_entries mm user_id))"
    using search_memories_fallback[OF a] neg eq by (simp add: slice_to_def)
qed

text \<open>
  Three stored entries, two of which contain the query up to case; with limit 1 the
  first of the two is returned, with limit 5 both, with limit -2 none.
\<close>

theorem search_memories_without_mem0_witness:
  "\<not> mem0_available example_manager
   \<and> stored_entries example_manager ''u1'' = [first_entry, second_entry, third_entry]
   \<and> filter (\<lambda>m. py_in (lower ''Sad'') (lower (entry_text m)))
        (stored_entries example_manager ''u1'') = [first_entry, third_entry]
   \<and> search_memories example_manager ''u1'' ''Sad'' 1 = [first_entry]
   \<and> search_memories example_manager ''u1'' ''Sad'' 5 = [first_entry, third_entry]
   \<and> search_memories example_manager ''u1'' ''Sad'' (- 2) = []"
proof -
  have a: "\<not> mem0_available example_manager"
    by (simp add: example_manager_def memory_manager_init_def)
  have s: "stored_entries example_manager ''u1'' = [first_entry, second_entry, third_entry]"
    by code_simp
  have f: "filter (\<lambda>m. py_in (lower ''Sad'') (lower (entry_text m)))
        (stored_entries example_manager ''u1'') = [first_entry, third_entry]"
    by code_simp
  have d: "(0::int) \<le> 1" "(0::int) \<le> 5" "(- 2 :: int) < 0" by simp_all
  from a d(1) search_memories_without_mem0[of example_manager 1 "''u1''" "''Sad''"]
  have "search_memories example_manager ''u1'' ''Sad'' 1
          = take (nat 1) (filter (\<lambda>m. py_in (lower ''Sad'') (lower (entry_text m)))
                            (stored_entries example_manager ''u1''))"
    by blast
  then have 1: "search_memories example_manager ''u1'' ''Sad'' 1 = [first_entry]"
    by (simp only: f) simp
  from a d(2) search_memories_without_mem0[of example_manager 5 "''u1''" "''Sad''"]
  have "search_memories example_manager ''u1'' ''Sad'' 5
          = take (nat 5) (filter (\<lambda>m. py_in (lower ''Sad'') (lower (entry_text m)))
                            (stored_entries example_manager ''u1''))"
    by blast
  then have 2: "search_memories example_manager ''u1'' ''Sad'' 5 = [first_entry, third_entry]"
    by (simp only: f) simp
  from a d(3) search_memories_without_mem0[of example_manager "- 2" "''u1''" "''Sad''"]
  have "search_memories example_manager ''u1'' ''Sad'' (- 2)
          = take (length (filter (\<lambda>m. py_in (lower ''Sad'') (lower (entry_text m)))
                            (stored_entries example_manager ''u1'')) - nat (- (- 2)))
              (filter (\<lambda>m. py_in (lower ''Sad'') (lower (entry_text m)))
                 (stored_entries example_manager ''u1''))"
    by blast
  then have 3: "search_memories example_manager ''u1'' ''Sad'' (- 2) = []"
    by (simp only: f) simp
  from a s f 1 2 3 show ?thesis by blast
qed

text \<open>
  C8 as stated fails for a negative limit: two entries match, and with limit -1 one entry
  is returned, which is more than the limit.
\<close>

theorem search_memories_negative_limit_counterexample:
  "search_memories example_manager ''u1'' ''sad'' (- 1) = [first_entry]
   \<and> \<not> int (length (search_memories example_manager ''u1'' ''sad'' (- 1))) \<le> - 1"
proof -
  have "search_memories example_manager ''u1'' ''sad'' (- 1) = [first_entry]"
    by code_simp
  then show ?thesis by simp
qed

subsection \<open>C9: readiness\<close>

text \<open>
  C9. \<open>MemoryManager.is_ready\<close> and \<open>RAGManager.is_ready\<close> return \<open>True\<close> in every state
  of the object, also when the library is absent or its initialisation failed, and so
  the health check reports both subsystems as ready.
\<close>

theorem always_ready:
  "is_ready mm \<and> rag_is_ready rm
   \<and> h_memory (health_check now mm rm) \<and> h_rag (health_check now mm rm)"
  by (simp add: is_ready_def rag_is_ready_def health_check_def)

theorem always_ready_witness:
  "\<not> ready (memory_manager_init InitFails example_files)
   \<and> is_ready (memory_manager_init InitFails example_files)
   \<and> \<not> rag_ready (rag_manager_init Absent False False)
   \<and> rag_is_ready (rag_manager_init Absent False False)
   \<and> h_memory (health_check ''2025-01-01T12:00:00''
        (memory_manager_init InitFails example_files) (rag_manager_init Absent False False))
   \<and> h_rag (health_check ''2025-01-01T12:00:00''
        (memory_manager_init InitFails example_files) (rag_manager_init Absent False False))"
  using always_ready[of "memory_manager_init InitFails example_files"
      "rag_manager_init Absent False False" "''2025-01-01T12:00:00''"]
  by (simp add: memory_manager_init_def rag_manager_init_def)

subsection \<open>C10: the fallback verdict\<close>

text \<open>
  C10, as the code has it. Let \<open>text\<close> be the salvaged text of the content: the content
  itself when it holds no \<open>```\<close> marker, else the stripped text cut out after the marker.
  When decoding \<open>text\<close> fails, the returned verdict has \<open>needs_support\<close> \<open>True\<close> and
  \<open>severity\<close> \<open>medium\<close> whatever the text is, and has \<open>is_negative\<close> true exactly when
  the lower-cased \<open>text\<close> contains \<open>negative\<close> or \<open>true\<close>; the post then passes the
  filter exactly in that case. The tests are made on the salvaged text, not on the whole
  reply.
\<close>

theorem fallback_verdict_fields:
  "(\<not> py_in ''```'' content \<longrightarrow> salvage content = Inr content)
   \<and> (salvage content = Inr text \<and> loads text = None \<longrightarrow>
        analyze_sentiment loads (Response content) = Inr (fallback_verdict text)
        \<and> py_get (fallback_verdict text) ''needs_support'' JNull = Inr (JBool True)
        \<and> py_get (fallback_verdict text) ''severity'' JNull = Inr (JStr ''medium'')
        \<and> py_get (fallback_verdict text) ''is_negative'' JNull
            = Inr (JBool (py_in ''negative'' (lower text) \<or> py_in ''true'' (lower text)))
        \<and> (sentiment_api w i (post_text p) (post_username p) = Response content \<longrightarrow>
             filter_stage loads w i [p]
               = Inr (if py_in ''negative'' (lower text) \<or> py_in ''true'' (lower text)
                      then [(p, fallback_verdict text)] else [])))"
proof (intro conjI impI)
  assume "\<not> py_in ''```'' content"
  then show "salvage content = Inr content"
    using salvage_unfenced[of content] by (simp add: fence_def)
next
  assume h: "salvage content = Inr text \<and> loads text = None"
  then show a: "analyze_sentiment loads (Response content) = Inr (fallback_verdict text)"
    by (simp add: analyze_sentiment_def and_then_def)
  show "py_get (fallback_verdict text) ''needs_support'' JNull = Inr (JBool True)"
    by (simp add: fallback_verdict_def)
  show "py_get (fallback_verdict text) ''severity'' JNull = Inr (JStr ''medium'')"
    by (simp add: fallback_verdict_def)
  show "py_get (fallback_verdict text) ''is_negative'' JNull
          = Inr (JBool (py_in ''negative'' (lower text) \<or> py_in ''true'' (lower text)))"
    by (simp add: fallback_verdict_def)
  assume r: "sentiment_api w i (post_text p) (post_username p) = Response content"
  have acc: "accepts (fallback_verdict text)
               = Inr (py_in ''negative'' (lower text) \<or> py_in ''true'' (lower text))"
    by (simp add: fallback_verdict_def accepts_def and_then_def)
  have ann: "announce (fallback_verdict text) = Inr []"
    by (simp add: fallback_verdict_def announce_def and_then_def)
  show "filter_stage loads w i [p]
          = Inr (if py_in ''negative'' (lower text) \<or> py_in ''true'' (lower text)
                 then [(p, fallback_verdict text)] else [])"
    using a r acc ann by (simp add: and_then_def)
qed

text \<open>A reply in prose that says \<open>negative\<close>: the post passes the filter.\<close>

theorem fallback_verdict_fields_witness:
  "\<not> py_in ''```'' prose_reply
   \<and> salvage prose_reply = Inr prose_reply \<and> example_loads prose_reply = None
   \<and> sentiment_api prose_world 0 (post_text example_post) (post_username example_post)
       = Response prose_reply
   \<and> py_in ''negative'' (lower prose_reply)
   \<and> analyze_sentiment example_loads (Response prose_reply) = Inr (fallback_verdict prose_reply)
   \<and> filter_stage example_loads prose_world 0 [example_post]
       = Inr [(example_post, fallback_verdict prose_reply)]"
proof -
  have a: "\<not> py_in ''```'' prose_reply" by code_simp
  have b: "salvage prose_reply = Inr prose_reply \<and> example_loads prose_reply = None"
    by code_simp
  have c: "sentiment_api prose_world 0 (post_text example_post) (post_username example_post)
       = Response prose_reply"
    by code_simp
  have d: "py_in ''negative'' (lower prose_reply)" by code_simp
  from b c
    fallback_verdict_fields[of prose_reply prose_reply example_loads prose_world 0 example_post]
  have v: "analyze_sentiment example_loads (Response prose_reply)
             = Inr (fallback_verdict prose_reply)"
    and f: "filter_stage example_loads prose_world 0 [example_post]
       = Inr (if py_in ''negative'' (lower prose_reply) \<or> py_in ''true'' (lower prose_reply)
              then [(example_post, fallback_verdict prose_reply)] else [])"
    by blast+
  from f d have "filter_stage example_loads prose_world 0 [example_post]
       = Inr [(example_post, fallback_verdict prose_reply)]"
    by (simp only: simp_thms if_True)
  with a b c d v show ?thesis by blast
qed

text \<open>
  C10 as stated fails for a reply with a marker: the reply below is not JSON and contains
  \<open>negative\<close>, but the text cut out after the marker does not, so the fallback verdict has
  \<open>is_negative\<close> \<open>False\<close> and the post does not pass the filter.
\<close>

theorem fallback_ignores_text_outside_marker_counterexample:
  "example_loads broken_fenced_reply = None
   \<and> py_in ''negative'' (lower broken_fenced_reply)
   \<and> analyze_sentiment example_loads (Response broken_fenced_reply)
       = Inr (fallback_verdict ''{oops'')
   \<and> py_get (fallback_verdict ''{oops'') ''is_negative'' JNull = Inr (JBool False)
   \<and> filter_stage example_loads broken_world 0 [example_post] = Inr []"
  by code_simp

end
